theory Spec2Isabelle
  imports Complex_Main "HOL-Library.Char_ord" "HOL-Library.List_Lexorder" "HOL-Library.AList"
begin

section \<open>The health checker of scripts/monitoring/health-check.py\<close>

text \<open>
  The development embeds the class \<open>HealthChecker\<close>: the remote executor
  \<open>ssh_execute\<close>, the reachability probe, the seven metric collectors, the threshold
  evaluation inside \<open>check_server\<close>, the orchestrator \<open>run_checks\<close>, the store
  \<open>save_results\<close> and the loop \<open>run_continuous\<close>.

  Python strings are lists of characters; a \<open>char\<close> stands for a code point below 256.
  Python's \<open>None\<close> for an \<open>Optional\<close> value is \<open>None\<close> of the option type.

  Not modelled: the constructor with \<open>load_config\<close>, the colours and the time format of
  a printed line, the serialisation of a snapshot as JSON text, and an interrupt that
  arrives at another moment than during the sleep between two runs. How a process ends
  depends on its argument list only.
\<close>

subsection \<open>String builtins used by the collectors\<close>

text \<open>\<open>str.isspace\<close> on one character: the white space code points below 256.\<close>

definition isspace :: "char \<Rightarrow> bool" where
  "isspace c = (of_char c \<in> set [9, 10, 11, 12, 13, 28, 29, 30, 31, 32, 133, 160 :: nat])"

text \<open>\<open>s.strip()\<close>.\<close>

definition strip :: "string \<Rightarrow> string" where
  "strip s = rev (dropWhile isspace (rev (dropWhile isspace s)))"

text \<open>\<open>s.rstrip(c)\<close> for a one-character argument.\<close>

definition rstrip_char :: "char \<Rightarrow> string \<Rightarrow> string" where
  "rstrip_char c s = rev (dropWhile (\<lambda>x. x = c) (rev s))"

text \<open>
  \<open>s.split()\<close>: the maximal runs of characters that are not white space. The first
  argument is the word being read.
\<close>

fun split_ws_from :: "string \<Rightarrow> string \<Rightarrow> string list" where
  "split_ws_from cur [] = (if cur = [] then [] else [cur])"
| "split_ws_from cur (c # cs) =
     (if isspace c
      then (if cur = [] then split_ws_from [] cs else cur # split_ws_from [] cs)
      else split_ws_from (cur @ [c]) cs)"

definition split_ws :: "string \<Rightarrow> string list" where
  "split_ws s = split_ws_from [] s"

text \<open>
  \<open>s.split(sep)\<close> for a one-character separator: empty fields are kept, and the result
  always has at least one field.
\<close>

fun split_on_from :: "char \<Rightarrow> string \<Rightarrow> string \<Rightarrow> string list" where
  "split_on_from sep cur [] = [cur]"
| "split_on_from sep cur (c # cs) =
     (if c = sep then cur # split_on_from sep [] cs
      else split_on_from sep (cur @ [c]) cs)"

definition split_on :: "char \<Rightarrow> string \<Rightarrow> string list" where
  "split_on sep s = split_on_from sep [] s"

text \<open>
  \<open>int(s)\<close> for a string: white space around the literal is dropped, then an optional
  sign and decimal digits, where single underscores may stand between digits. \<open>None\<close> is
  the \<open>ValueError\<close>. The white space that \<open>int\<close> drops is not all of \<open>str.isspace\<close>: the
  four separators with codes 28 to 31 stay and make the literal invalid. A literal with
  more than 4300 digits, the interpreter's default limit, is refused as well; the sign
  and the underscores do not count.
\<close>

definition int_space :: "char \<Rightarrow> bool" where
  "int_space c = (of_char c \<in> set [9, 10, 11, 12, 13, 32, 133, 160 :: nat])"

definition int_max_str_digits :: nat where
  "int_max_str_digits = 4300"

definition digit_val :: "char \<Rightarrow> nat option" where
  "digit_val c =
     (if 48 \<le> (of_char c :: nat) \<and> (of_char c :: nat) \<le> 57
      then Some (of_char c - 48) else None)"

fun int_digits :: "int \<Rightarrow> string \<Rightarrow> int option" where
  "int_digits acc [] = Some acc"
| "int_digits acc [c] =
     (case digit_val c of None \<Rightarrow> None | Some v \<Rightarrow> Some (10 * acc + int v))"
| "int_digits acc (c # d # ds) =
     (if c = CHR ''_''
      then (case digit_val d of None \<Rightarrow> None
            | Some v \<Rightarrow> int_digits (10 * acc + int v) ds)
      else (case digit_val c of None \<Rightarrow> None
            | Some v \<Rightarrow> int_digits (10 * acc + int v) (d # ds)))"

definition unsigned_literal :: "string \<Rightarrow> int option" where
  "unsigned_literal s =
     (case s of [] \<Rightarrow> None
      | d # ds \<Rightarrow> (case digit_val d of None \<Rightarrow> None | Some v \<Rightarrow> int_digits (int v) ds))"

definition py_int :: "string \<Rightarrow> int option" where
  "py_int s =
     (let t = rev (dropWhile int_space (rev (dropWhile int_space s)))
      in if int_max_str_digits < length (filter (\<lambda>c. digit_val c \<noteq> None) t) then None
         else (case t of [] \<Rightarrow> None
               | c # cs \<Rightarrow>
                   if c = CHR ''-'' then map_option uminus (unsigned_literal cs)
                   else if c = CHR ''+'' then unsigned_literal cs
                   else unsigned_literal (c # cs)))"

text \<open>\<open>str(n)\<close> for an integer.\<close>

function str_digits :: "int \<Rightarrow> string" where
  "str_digits n =
     (if n < 10 then [char_of (48 + n)]
      else str_digits (n div 10) @ [char_of (48 + n mod 10)])"
  by pat_completeness auto
termination
  by (relation "measure nat") auto

declare str_digits.simps [simp del]

definition str_int :: "int \<Rightarrow> string" where
  "str_int i = (if i < 0 then CHR ''-'' # str_digits (- i) else str_digits i)"

subsection \<open>Floats\<close>

text \<open>
  A Python float is an IEEE binary64 value. Finite values are kept as the rational they
  denote (the sign of zero is dropped).
\<close>

datatype pyfloat = Fin rat | PInf | NInf | NaN

text \<open>The number of bits of a positive integer (\<open>int.bit_length\<close>).\<close>

function bit_length :: "int \<Rightarrow> int" where
  "bit_length n = (if n \<le> 0 then 0 else 1 + bit_length (n div 2))"
  by pat_completeness auto
termination
  by (relation "measure nat") auto

declare bit_length.simps [simp del]

definition pow2 :: "int \<Rightarrow> rat" where
  "pow2 k = (if 0 \<le> k then 2 ^ nat k else 1 / 2 ^ nat (- k))"

text \<open>The exponent \<open>k\<close> with \<open>2 ^ k \<le> q < 2 ^ (k + 1)\<close>, for \<open>q > 0\<close>.\<close>

definition floor_log2 :: "rat \<Rightarrow> int" where
  "floor_log2 q =
     (let (n, d) = quotient_of q;
          k = bit_length n - bit_length d
      in if pow2 k \<le> q then k else k - 1)"

definition round_half_even :: "rat \<Rightarrow> int" where
  "round_half_even q =
     (let f = \<lfloor>q\<rfloor>; d = q - of_int f
      in if d < 1 / 2 then f
         else if 1 / 2 < d then f + 1
         else if even f then f else f + 1)"

text \<open>
  The binary64 value nearest to a rational, ties to even: 53 significant bits, least
  exponent \<open>-1074\<close>; a result of magnitude \<open>2 ^ 1024\<close> or more is an overflow.
\<close>

definition nearest_double :: "rat \<Rightarrow> rat" where
  "nearest_double q =
     (if q = 0 then 0
      else let e = max (floor_log2 \<bar>q\<bar> - 52) (- 1074)
           in of_int (round_half_even (q / pow2 e)) * pow2 e)"

definition overflows :: "rat \<Rightarrow> bool" where
  "overflows r = (r \<noteq> 0 \<and> 1024 \<le> floor_log2 \<bar>r\<bar>)"

text \<open>
  \<open>a / b\<close> on integers: the correctly rounded quotient; \<open>None\<close> is the
  \<open>ZeroDivisionError\<close> or the \<open>OverflowError\<close>.
\<close>

definition true_div :: "int \<Rightarrow> int \<Rightarrow> pyfloat option" where
  "true_div a b =
     (if b = 0 then None
      else let r = nearest_double (of_int a / of_int b)
           in if overflows r then None else Some (Fin r))"

text \<open>\<open>x * n\<close> for a float and an integer constant that is a float exactly.\<close>

definition float_mul :: "pyfloat \<Rightarrow> int \<Rightarrow> pyfloat" where
  "float_mul x n =
     (case x of
        Fin q \<Rightarrow>
          (let r = nearest_double (q * of_int n)
           in if overflows r then (if 0 < r then PInf else NInf) else Fin r)
      | PInf \<Rightarrow> (if 0 < n then PInf else if n < 0 then NInf else NaN)
      | NInf \<Rightarrow> (if 0 < n then NInf else if n < 0 then PInf else NaN)
      | NaN \<Rightarrow> NaN)"

text \<open>
  \<open>round(x, 1)\<close>: a finite value goes to the nearest decimal with one fractional digit
  (ties to even, on the exact value) and from there to the nearest binary64 value;
  infinities and NaN round to themselves.
\<close>

definition round1 :: "pyfloat \<Rightarrow> pyfloat" where
  "round1 x =
     (case x of
        Fin q \<Rightarrow> Fin (nearest_double (of_int (round_half_even (q * 10)) / 10))
      | _ \<Rightarrow> x)"

text \<open>\<open>x > n\<close> for a float and an integer: an exact comparison, false on NaN.\<close>

definition float_gt :: "pyfloat \<Rightarrow> int \<Rightarrow> bool" where
  "float_gt x n =
     (case x of Fin q \<Rightarrow> of_int n < q | PInf \<Rightarrow> True | NInf \<Rightarrow> False | NaN \<Rightarrow> False)"

text \<open>The truth value of a float: everything but zero.\<close>

definition float_truthy :: "pyfloat \<Rightarrow> bool" where
  "float_truthy x = (x \<noteq> Fin 0)"

subsection \<open>Data model\<close>

text \<open>
  A server is one entry of the inventory, a dictionary from strings to strings
  (\<open>Dict[str, str]\<close>); the keys read are \<open>name\<close>, \<open>ip\<close>, \<open>type\<close>, \<open>ssh_user\<close> and
  \<open>ssh_port\<close>.
\<close>

type_synonym server = "string \<rightharpoonup> string"

text \<open>The dictionaries built by the collectors, one record per dictionary literal.\<close>

record memory =
  mem_total :: int
  mem_used :: int
  mem_free :: int
  mem_percent :: pyfloat

record disk =
  disk_device :: string
  disk_size :: string
  disk_used :: string
  disk_available :: string
  disk_percent :: int
  disk_mount :: string

record load_average =
  load_1min :: pyfloat
  load_5min :: pyfloat
  load_15min :: pyfloat

record container =
  ct_name :: string
  ct_status :: string
  ct_state :: string

record docker =
  dock_total :: nat
  dock_running :: nat
  dock_stopped :: nat
  dock_containers :: "container list"

record service =
  svc_name :: string
  svc_status :: string
  svc_running :: bool

text \<open>
  The dictionary \<open>result['metrics']\<close> is either empty or holds all seven keys
  (\<open>uptime\<close>, \<open>cpu\<close>, \<open>memory\<close>, \<open>disk\<close>, \<open>load\<close>, \<open>docker\<close>, \<open>services\<close>), each with the
  collector's optional value: \<open>res_metrics = None\<close> below is the empty dictionary, and
  \<open>Some b\<close> the one with seven keys.
\<close>

record metric_bundle =
  m_uptime :: "string option"
  m_cpu :: "pyfloat option"
  m_memory :: "memory option"
  m_disk :: "disk list option"
  m_load :: "load_average option"
  m_docker :: "docker option"
  m_services :: "service list option"

text \<open>
  The dictionary returned by \<open>check_server\<close>, one field per key. The key \<open>warnings\<close> is
  set by an assignment late in the function: \<open>res_warnings = None\<close> is a dictionary
  without that key.
\<close>

record check_result =
  res_name :: string
  res_ip :: "string option"
  res_type :: string
  res_timestamp :: string
  res_reachable :: bool
  res_status :: string
  res_metrics :: "metric_bundle option"
  res_warnings :: "string list option"

text \<open>What \<open>save_results\<close> dumps into a file.\<close>

record snapshot =
  snap_timestamp :: string
  snap_servers :: "check_result list"

subsection \<open>The world outside the program\<close>

text \<open>The ways \<open>subprocess.run\<close> ends: a finished process, a timeout, any other error.\<close>

datatype proc = Completed int string string | TimeoutExpired | RunError string

text \<open>
  The exceptions that leave a method: the \<open>KeyError\<close> of \<open>server['name']\<close>, the
  \<open>OSError\<close> of \<open>open\<close>, and the \<open>ValueError\<close>, \<open>OverflowError\<close> or \<open>OSError\<close> of
  \<open>time.sleep\<close>. Every other exception of the source is raised inside a \<open>try\<close> whose
  handler returns \<open>None\<close> or \<open>False\<close>, and is modelled by that value.
\<close>

datatype exn = KeyError string | OSError string | ValueError string | OverflowError string

text \<open>
  What the program reads from outside during one run: how each started process ends, the
  text of each clock reading as \<open>isoformat()\<close> and as \<open>strftime('%Y%m%d_%H%M%S')\<close>,
  whether the two files can be opened for writing, the error with which the platform
  refuses to sleep for a given number of seconds, if it does (an \<open>OverflowError\<close> or
  \<open>OSError\<close> for a length that its clock cannot hold), and whether the interrupt signal
  arrives during the sleep after the run. Python's \<open>float(s)\<close> (\<open>None\<close> for its
  \<open>ValueError\<close>) and the text of a float in a formatted string are parameters as well.
\<close>

record env =
  run_proc :: "string list \<Rightarrow> proc"
  float_of_str :: "string \<Rightarrow> pyfloat option"
  str_of_float :: "pyfloat \<Rightarrow> string"
  isoformat :: "nat \<Rightarrow> string"
  file_stamp :: "nat \<Rightarrow> string"
  current_writable :: bool
  history_writable :: bool
  sleep_error :: "int \<Rightarrow> exn option"
  interrupted :: bool

text \<open>
  What the program changes: the lines printed (the clock reading that stamps the line,
  the message, the level), the processes started, the number of clock readings taken,
  the file \<open>current.json\<close> and the files of the directory \<open>history\<close> by name.
\<close>

record world =
  printed :: "(nat \<times> string \<times> string) list"
  spawned :: "string list list"
  clock :: nat
  current_json :: "snapshot option"
  history :: "(string \<times> snapshot) list"


text \<open>
  The fields of \<open>self\<close> that the methods read; \<open>output_dir\<close> is the text of the path
  \<open>self.output_dir\<close>.
\<close>

record checker =
  output_dir :: string
  verbose :: bool
  servers :: "server list"

subsection \<open>Sequencing: state and exceptions\<close>

type_synonym 'a prog = "world \<Rightarrow> (exn + 'a) \<times> world"

definition ret :: "'a \<Rightarrow> 'a prog" where
  "ret x w = (Inr x, w)"

definition raise :: "exn \<Rightarrow> 'a prog" where
  "raise e w = (Inl e, w)"

definition bnd :: "'a prog \<Rightarrow> ('a \<Rightarrow> 'b prog) \<Rightarrow> 'b prog" where
  "bnd m f w = (case m w of (Inl e, w') \<Rightarrow> (Inl e, w') | (Inr x, w') \<Rightarrow> f x w')"

text \<open>\<open>datetime.now()\<close>: the next clock reading.\<close>

definition now :: "nat prog" where
  "now w = (Inr (clock w), w\<lparr>clock := clock w + 1\<rparr>)"

text \<open>
  \<open>self.log(message, level)\<close>: reads the clock and prints one line. The name \<open>log\<close> is
  the logarithm in HOL, hence \<open>log_line\<close>.
\<close>

definition log_line :: "string \<Rightarrow> string \<Rightarrow> unit prog" where
  "log_line message level =
     bnd now (\<lambda>t w. (Inr (), w\<lparr>printed := printed w @ [(t, message, level)]\<rparr>))"

text \<open>\<open>subprocess.run(argv, ...)\<close>: starts a process and waits for its end.\<close>

definition subprocess_run :: "env \<Rightarrow> string list \<Rightarrow> proc prog" where
  "subprocess_run e argv w = (Inr (run_proc e argv), w\<lparr>spawned := spawned w @ [argv]\<rparr>)"

text \<open>The truth value of an optional string: \<open>None\<close> and the empty string are false.\<close>

definition truthy :: "string option \<Rightarrow> bool" where
  "truthy output = (case output of None \<Rightarrow> False | Some s \<Rightarrow> s \<noteq> [])"

subsection \<open>ssh_execute and the reachability probe\<close>

definition ssh_cmd :: "string \<Rightarrow> string \<Rightarrow> string \<Rightarrow> string \<Rightarrow> string list" where
  "ssh_cmd ssh_port ssh_user addr command =
     [''ssh'', ''-o'', ''StrictHostKeyChecking=no'', ''-o'', ''ConnectTimeout=5'',
      ''-o'', ''BatchMode=yes'', ''-p'', ssh_port, ssh_user @ ''@'' @ addr, command]"

text \<open>
  The three places of \<open>ssh_execute\<close> that log in verbose mode read \<open>server['name']\<close>,
  which raises \<open>KeyError\<close> for a server without that key. In the \<open>else\<close> branch the
  error is raised inside the \<open>try\<close>, caught by \<open>except Exception\<close>, and raised again by
  the handler's own message; in the two handlers it is raised directly. In all three
  the \<open>KeyError\<close> leaves \<open>ssh_execute\<close> and nothing is printed.
\<close>

definition log_failure ::
  "checker \<Rightarrow> server \<Rightarrow> (string \<Rightarrow> string) \<Rightarrow> string \<Rightarrow> string option prog" where
  "log_failure self server message level =
     (if verbose self
      then (case server ''name'' of
              None \<Rightarrow> raise (KeyError ''name'')
            | Some n \<Rightarrow> bnd (log_line (message n) level) (\<lambda>_. ret None))
      else ret None)"

definition ssh_execute :: "checker \<Rightarrow> env \<Rightarrow> server \<Rightarrow> string \<Rightarrow> string option prog" where
  "ssh_execute self e server command =
     (let ssh_user = (case server ''ssh_user'' of None \<Rightarrow> ''root'' | Some u \<Rightarrow> u);
          ssh_port = (case server ''ssh_port'' of None \<Rightarrow> ''22'' | Some p \<Rightarrow> p)
      in case server ''ip'' of
           None \<Rightarrow> ret None
         | Some addr \<Rightarrow>
             if addr = [] then ret None
             else bnd (subprocess_run e (ssh_cmd ssh_port ssh_user addr command))
               (\<lambda>result. case result of
                  Completed returncode out err \<Rightarrow>
                    if returncode = 0 then ret (Some (strip out))
                    else log_failure self server
                           (\<lambda>n. ''SSH command failed on '' @ n @ '': '' @ err) ''warning''
                | TimeoutExpired \<Rightarrow>
                    log_failure self server (\<lambda>n. ''SSH timeout on '' @ n) ''warning''
                | RunError msg \<Rightarrow>
                    log_failure self server
                      (\<lambda>n. ''SSH error on '' @ n @ '': '' @ msg) ''error''))"

text \<open>
  \<open>check_server_reachable\<close>: one ping. Without the key \<open>ip\<close> the argument list holds
  \<open>None\<close>, \<open>subprocess.run\<close> raises before a process starts, and the bare \<open>except\<close>
  answers \<open>False\<close>.
\<close>

definition check_server_reachable :: "env \<Rightarrow> server \<Rightarrow> bool prog" where
  "check_server_reachable e server =
     (case server ''ip'' of
        None \<Rightarrow> ret False
      | Some addr \<Rightarrow>
          bnd (subprocess_run e [''ping'', ''-c'', ''1'', ''-W'', ''2'', addr])
            (\<lambda>result. case result of
               Completed returncode out err \<Rightarrow> ret (returncode = 0)
             | _ \<Rightarrow> ret False))"

subsection \<open>Metric collectors\<close>

text \<open>\<open>xs[i]\<close> for \<open>i \<ge> 0\<close>; \<open>None\<close> is the \<open>IndexError\<close>.\<close>

definition item :: "'a list \<Rightarrow> nat \<Rightarrow> 'a option" where
  "item xs i = (if i < length xs then Some (xs ! i) else None)"

text \<open>
  Every collector but the last is one remote command followed by a computation on its
  output; the computation is named \<open>..._value\<close> here.
\<close>

definition uptime_value :: "string option \<Rightarrow> string option" where
  "uptime_value output = (if truthy output then output else Some ''Unknown'')"

definition get_uptime :: "checker \<Rightarrow> env \<Rightarrow> server \<Rightarrow> string option prog" where
  "get_uptime self e server =
     bnd (ssh_execute self e server ''uptime -p'') (\<lambda>output. ret (uptime_value output))"

definition cpu_command :: string where
  "cpu_command = ''top -bn1 | grep 'Cpu(s)' | awk '{print $2}' | cut -d'%' -f1''"

definition cpu_value :: "env \<Rightarrow> string option \<Rightarrow> pyfloat option" where
  "cpu_value e output =
     (case output of None \<Rightarrow> None | Some s \<Rightarrow> if s = [] then None else float_of_str e s)"

definition get_cpu_usage :: "checker \<Rightarrow> env \<Rightarrow> server \<Rightarrow> pyfloat option prog" where
  "get_cpu_usage self e server =
     bnd (ssh_execute self e server cpu_command) (\<lambda>output. ret (cpu_value e output))"

text \<open>
  The \<open>try\<close> block of \<open>get_memory_usage\<close>; \<open>None\<close> stands for any exception raised in it
  (\<open>IndexError\<close>, \<open>ValueError\<close>, \<open>ZeroDivisionError\<close>, \<open>OverflowError\<close>), which the bare
  \<open>except\<close> turns into \<open>None\<close>.
\<close>

definition parse_memory :: "string \<Rightarrow> memory option" where
  "parse_memory output =
     (let parts = split_ws output
      in case Option.bind (item parts 1) py_int of None \<Rightarrow> None | Some total_mb \<Rightarrow>
         (case Option.bind (item parts 2) py_int of None \<Rightarrow> None | Some used_mb \<Rightarrow>
         (case Option.bind (item parts 3) py_int of None \<Rightarrow> None | Some free_mb \<Rightarrow>
         (case true_div used_mb total_mb of None \<Rightarrow> None | Some ratio \<Rightarrow>
           Some \<lparr>mem_total = total_mb, mem_used = used_mb, mem_free = free_mb,
                 mem_percent = round1 (float_mul ratio 100)\<rparr>))))"

definition memory_value :: "string option \<Rightarrow> memory option" where
  "memory_value output =
     (case output of None \<Rightarrow> None | Some s \<Rightarrow> if s = [] then None else parse_memory s)"

definition get_memory_usage :: "checker \<Rightarrow> env \<Rightarrow> server \<Rightarrow> memory option prog" where
  "get_memory_usage self e server =
     bnd (ssh_execute self e server ''free -m | grep Mem'')
       (\<lambda>output. ret (memory_value output))"

text \<open>
  One row of the disk table with at least six fields; \<open>None\<close> when \<open>int\<close> raises, and
  the loop goes on to the next row.
\<close>

definition disk_row :: "string list \<Rightarrow> disk option" where
  "disk_row parts =
     (case py_int (rstrip_char CHR ''%'' (parts ! 4)) of
        None \<Rightarrow> None
      | Some p \<Rightarrow>
          Some \<lparr>disk_device = parts ! 0, disk_size = parts ! 1, disk_used = parts ! 2,
                disk_available = parts ! 3, disk_percent = p, disk_mount = parts ! 5\<rparr>)"

fun disk_loop :: "string list \<Rightarrow> disk list \<Rightarrow> disk list" where
  "disk_loop [] disks = disks"
| "disk_loop (line # rest) disks =
     (let parts = split_ws line
      in if 6 \<le> length parts
         then (case disk_row parts of
                 Some d \<Rightarrow> disk_loop rest (disks @ [d])
               | None \<Rightarrow> disk_loop rest disks)
         else disk_loop rest disks)"

definition disk_command :: string where
  "disk_command = ''df -h | grep -E '^/dev/' | awk '{print $1,$2,$3,$4,$5,$6}'' @ [CHR 0x27]"

definition disk_value :: "string option \<Rightarrow> disk list option" where
  "disk_value output =
     (case output of
        None \<Rightarrow> None
      | Some s \<Rightarrow>
          if s = [] then None
          else let disks = disk_loop (split_on (CHR 0x0A) s) []
               in if disks \<noteq> [] then Some disks else None)"

definition get_disk_usage :: "checker \<Rightarrow> env \<Rightarrow> server \<Rightarrow> disk list option prog" where
  "get_disk_usage self e server =
     bnd (ssh_execute self e server disk_command) (\<lambda>output. ret (disk_value output))"

text \<open>The \<open>try\<close> block of \<open>get_load_average\<close>.\<close>

definition parse_load :: "env \<Rightarrow> string \<Rightarrow> load_average option" where
  "parse_load e output =
     (let parts = split_ws output
      in case Option.bind (item parts 0) (float_of_str e) of None \<Rightarrow> None | Some l1 \<Rightarrow>
         (case Option.bind (item parts 1) (float_of_str e) of None \<Rightarrow> None | Some l5 \<Rightarrow>
         (case Option.bind (item parts 2) (float_of_str e) of None \<Rightarrow> None | Some l15 \<Rightarrow>
           Some \<lparr>load_1min = l1, load_5min = l5, load_15min = l15\<rparr>)))"

definition load_value :: "env \<Rightarrow> string option \<Rightarrow> load_average option" where
  "load_value e output =
     (case output of None \<Rightarrow> None | Some s \<Rightarrow> if s = [] then None else parse_load e s)"

definition get_load_average :: "checker \<Rightarrow> env \<Rightarrow> server \<Rightarrow> load_average option prog" where
  "get_load_average self e server =
     bnd (ssh_execute self e server ''cat /proc/loadavg'')
       (\<lambda>output. ret (load_value e output))"

text \<open>
  The loop of \<open>get_docker_containers\<close> over the lines, with its three variables
  \<open>containers\<close>, \<open>running\<close> and \<open>stopped\<close>.
\<close>

fun docker_loop ::
  "string list \<Rightarrow> container list \<times> nat \<times> nat \<Rightarrow> container list \<times> nat \<times> nat" where
  "docker_loop [] acc = acc"
| "docker_loop (line # rest) (containers, running, stopped) =
     (if CHR ''|'' \<notin> set line then docker_loop rest (containers, running, stopped)
      else let parts = split_on CHR ''|'' line
           in if 3 \<le> length parts
              then docker_loop rest
                     (containers @ [\<lparr>ct_name = parts ! 0, ct_status = parts ! 1,
                                     ct_state = parts ! 2\<rparr>],
                      if parts ! 2 = ''running'' then running + 1 else running,
                      if parts ! 2 = ''running'' then stopped else stopped + 1)
              else docker_loop rest (containers, running, stopped))"

definition docker_command :: string where
  "docker_command =
     ''docker ps -a --format '{{.Names}}|{{.Status}}|{{.State}}' 2>/dev/null || echo 'NOT_INSTALLED''
       @ [CHR 0x27]"

definition docker_value :: "string option \<Rightarrow> docker option" where
  "docker_value output =
     (case output of
        None \<Rightarrow> None
      | Some s \<Rightarrow>
          if s = [] \<or> s = ''NOT_INSTALLED'' then None
          else (case docker_loop (split_on (CHR 0x0A) s) ([], 0, 0) of
                  (containers, running, stopped) \<Rightarrow>
                    Some \<lparr>dock_total = length containers,
                          dock_running = running,
                          dock_stopped = stopped,
                          dock_containers = containers\<rparr>))"

definition get_docker_containers :: "checker \<Rightarrow> env \<Rightarrow> server \<Rightarrow> docker option prog" where
  "get_docker_containers self e server =
     bnd (ssh_execute self e server docker_command) (\<lambda>output. ret (docker_value output))"

definition service_command :: "string \<Rightarrow> string" where
  "service_command service =
     ''systemctl is-active '' @ service @ '' 2>/dev/null || echo 'not-found'' @ [CHR 0x27]"

fun services_loop ::
  "checker \<Rightarrow> env \<Rightarrow> server \<Rightarrow> string list \<Rightarrow> service list \<Rightarrow> service list prog" where
  "services_loop self e server [] results = ret results"
| "services_loop self e server (service # rest) results =
     bnd (ssh_execute self e server (service_command service))
       (\<lambda>output.
          if truthy output \<and> output \<noteq> Some ''not-found''
          then services_loop self e server rest
                 (results @ [\<lparr>svc_name = service, svc_status = the output,
                               svc_running = (output = Some ''active'')\<rparr>])
          else services_loop self e server rest results)"

text \<open>
  The parameter \<open>services\<close> of the source is \<open>None\<close> by default; \<open>None\<close> and the empty
  list both select the default names.
\<close>

definition default_services :: "string list" where
  "default_services = [''ssh'', ''docker'', ''nginx'', ''postgresql'', ''mysql'']"

definition service_names :: "string list option \<Rightarrow> string list" where
  "service_names services_arg =
     (case services_arg of
        None \<Rightarrow> default_services
      | Some l \<Rightarrow> if l = [] then default_services else l)"

definition get_services_status ::
  "checker \<Rightarrow> env \<Rightarrow> server \<Rightarrow> string list option \<Rightarrow> service list option prog" where
  "get_services_status self e server services_arg =
     bnd (services_loop self e server (service_names services_arg) [])
       (\<lambda>results. ret (if results \<noteq> [] then Some results else None))"

subsection \<open>check_server\<close>

text \<open>\<open>sep.join(xs)\<close>.\<close>

fun join :: "string \<Rightarrow> string list \<Rightarrow> string" where
  "join sep [] = []"
| "join sep [x] = x"
| "join sep (x # y # ys) = x @ sep @ join sep (y # ys)"

text \<open>
  The block "Determine overall status": the pair is the two local variables \<open>status\<close>
  and \<open>warnings\<close>, which the three checks update in turn.
\<close>

definition check_cpu ::
  "env \<Rightarrow> metric_bundle \<Rightarrow> string \<times> string list \<Rightarrow> string \<times> string list" where
  "check_cpu e m sw =
     (case m_cpu m of
        None \<Rightarrow> sw
      | Some c \<Rightarrow>
          if float_truthy c \<and> float_gt c 80
          then (''warning'', snd sw @ [''High CPU: '' @ str_of_float e c @ ''%''])
          else sw)"

definition check_memory ::
  "env \<Rightarrow> metric_bundle \<Rightarrow> string \<times> string list \<Rightarrow> string \<times> string list" where
  "check_memory e m sw =
     (case m_memory m of
        None \<Rightarrow> sw
      | Some mem \<Rightarrow>
          if float_gt (mem_percent mem) 85
          then (''warning'',
                snd sw @ [''High Memory: '' @ str_of_float e (mem_percent mem) @ ''%''])
          else sw)"

fun check_disk_loop :: "disk list \<Rightarrow> string \<times> string list \<Rightarrow> string \<times> string list" where
  "check_disk_loop [] sw = sw"
| "check_disk_loop (d # rest) (status, warnings) =
     (if 85 < disk_percent d
      then check_disk_loop rest
             (if 95 < disk_percent d then ''critical'' else ''warning'',
              warnings @ [''High Disk ('' @ disk_mount d @ ''): ''
                          @ str_int (disk_percent d) @ ''%''])
      else check_disk_loop rest (status, warnings))"

definition check_disk :: "metric_bundle \<Rightarrow> string \<times> string list \<Rightarrow> string \<times> string list" where
  "check_disk m sw = (case m_disk m of None \<Rightarrow> sw | Some ds \<Rightarrow> check_disk_loop ds sw)"

definition determine_status :: "env \<Rightarrow> metric_bundle \<Rightarrow> string \<times> string list" where
  "determine_status e m = check_disk m (check_memory e m (check_cpu e m (''healthy'', [])))"

definition collect_metrics :: "checker \<Rightarrow> env \<Rightarrow> server \<Rightarrow> metric_bundle prog" where
  "collect_metrics self e server =
     bnd (get_uptime self e server) (\<lambda>v_uptime.
     bnd (get_cpu_usage self e server) (\<lambda>v_cpu.
     bnd (get_memory_usage self e server) (\<lambda>v_memory.
     bnd (get_disk_usage self e server) (\<lambda>v_disk.
     bnd (get_load_average self e server) (\<lambda>v_load.
     bnd (get_docker_containers self e server) (\<lambda>v_docker.
     bnd (get_services_status self e server None) (\<lambda>v_services.
     ret \<lparr>m_uptime = v_uptime, m_cpu = v_cpu, m_memory = v_memory, m_disk = v_disk,
          m_load = v_load, m_docker = v_docker, m_services = v_services\<rparr>)))))))"

definition check_server :: "checker \<Rightarrow> env \<Rightarrow> server \<Rightarrow> check_result prog" where
  "check_server self e server =
     (let server_name = (case server ''name'' of None \<Rightarrow> ''Unknown'' | Some n \<Rightarrow> n)
      in bnd (log_line (''Checking '' @ server_name @ ''...'') ''info'') (\<lambda>_.
         bnd now (\<lambda>t.
         let result = \<lparr>res_name = server_name,
                       res_ip = server ''ip'',
                       res_type = (case server ''type'' of None \<Rightarrow> ''unknown'' | Some k \<Rightarrow> k),
                       res_timestamp = isoformat e t,
                       res_reachable = False,
                       res_status = ''down'',
                       res_metrics = None,
                       res_warnings = None\<rparr>
         in bnd (check_server_reachable e server) (\<lambda>up.
            if \<not> up
            then bnd (log_line (''  '' @ server_name @ '': UNREACHABLE'') ''error'')
                   (\<lambda>_. ret result)
            else bnd (collect_metrics self e server) (\<lambda>m.
                 case determine_status e m of (status, warnings) \<Rightarrow>
                 bnd (if status = ''healthy''
                      then log_line (''  '' @ server_name @ '': OK'') ''success''
                      else if status = ''warning''
                      then log_line (''  '' @ server_name @ '': WARNING - ''
                                     @ join '', '' warnings) ''warning''
                      else log_line (''  '' @ server_name @ '': CRITICAL - ''
                                     @ join '', '' warnings) ''error'')
                   (\<lambda>_. ret (result\<lparr>res_reachable := True, res_metrics := Some m,
                                      res_status := status,
                                      res_warnings := Some warnings\<rparr>)))))))"

subsection \<open>save_results\<close>

definition is_json :: "string \<Rightarrow> bool" where
  "is_json f = (5 \<le> length f \<and> drop (length f - 5) f = ''.json'')"

text \<open>\<open>sorted((self.output_dir / "history").glob("*.json"))\<close>, as file names.\<close>

definition history_files :: "world \<Rightarrow> string list" where
  "history_files w = sort (filter is_json (map fst (history w)))"

text \<open>The slice \<open>xs[:-k]\<close> for \<open>k \<ge> 0\<close>; \<open>xs[:-0]\<close> is empty.\<close>

definition all_but_last :: "nat \<Rightarrow> 'a list \<Rightarrow> 'a list" where
  "all_but_last k xs = (if k = 0 then [] else take (length xs - k) xs)"

definition unlink :: "string \<Rightarrow> unit prog" where
  "unlink f w = (Inr (), w\<lparr>history := AList.delete f (history w)\<rparr>)"

fun unlink_all :: "string list \<Rightarrow> unit prog" where
  "unlink_all [] = ret ()"
| "unlink_all (old_file # rest) = bnd (unlink old_file) (\<lambda>_. unlink_all rest)"

text \<open>The block "Clean old history", for a number \<open>k\<close> of files to keep.\<close>

definition clean_old_history :: "nat \<Rightarrow> unit prog" where
  "clean_old_history k w =
     (if k < length (history_files w)
      then unlink_all (all_but_last k (history_files w)) w
      else (Inr (), w))"

text \<open>
  The two \<open>with open(..., 'w')\<close> blocks. \<open>open\<close> raises \<open>OSError\<close> when the file cannot be
  written; otherwise the clock is read once more and the snapshot replaces the file's
  content.
\<close>

definition write_current :: "checker \<Rightarrow> env \<Rightarrow> check_result list \<Rightarrow> unit prog" where
  "write_current self e results =
     (if \<not> current_writable e then raise (OSError (output_dir self @ ''/current.json''))
      else bnd now (\<lambda>t w.
             (Inr (), w\<lparr>current_json :=
                          Some \<lparr>snap_timestamp = isoformat e t, snap_servers = results\<rparr>\<rparr>)))"

definition write_history :: "checker \<Rightarrow> env \<Rightarrow> check_result list \<Rightarrow> unit prog" where
  "write_history self e results =
     bnd now (\<lambda>t.
       let history_file = file_stamp e t @ ''.json''
       in if \<not> history_writable e
          then raise (OSError (output_dir self @ ''/history/'' @ history_file))
          else bnd now (\<lambda>t' w.
                 (Inr (), w\<lparr>history :=
                    AList.update history_file
                      \<lparr>snap_timestamp = isoformat e t', snap_servers = results\<rparr>
                      (history w)\<rparr>)))"

definition save_results :: "checker \<Rightarrow> env \<Rightarrow> check_result list \<Rightarrow> unit prog" where
  "save_results self e results =
     bnd (write_current self e results) (\<lambda>_.
     bnd (write_history self e results) (\<lambda>_.
     bnd (clean_old_history 1000) (\<lambda>_.
     log_line (''Results saved to '' @ output_dir self @ ''/current.json'') ''success'')))"

subsection \<open>run_checks and run_continuous\<close>

text \<open>\<open>try: m except Exception as ex: h ex\<close>.\<close>

definition try_except :: "'a prog \<Rightarrow> (exn \<Rightarrow> 'a prog) \<Rightarrow> 'a prog" where
  "try_except m h w = (case m w of (Inl ex, w') \<Rightarrow> h ex w' | (Inr x, w') \<Rightarrow> (Inr x, w'))"

text \<open>The text of an exception and of an optional string inside a formatted string.\<close>

definition str_exn :: "exn \<Rightarrow> string" where
  "str_exn ex =
     (case ex of
        KeyError k \<Rightarrow> [CHR 0x27] @ k @ [CHR 0x27]
      | OSError m \<Rightarrow> m
      | ValueError m \<Rightarrow> m
      | OverflowError m \<Rightarrow> m)"

definition str_opt :: "string option \<Rightarrow> string" where
  "str_opt x = (case x of None \<Rightarrow> ''None'' | Some s \<Rightarrow> s)"

text \<open>The \<open>for\<close> loop of \<open>run_checks\<close> over the servers, with the list \<open>results\<close>.\<close>

fun checks_loop ::
  "checker \<Rightarrow> env \<Rightarrow> server list \<Rightarrow> check_result list \<Rightarrow> check_result list prog" where
  "checks_loop self e [] results = ret results"
| "checks_loop self e (server # rest) results =
     bnd (try_except
            (bnd (check_server self e server) (\<lambda>result. ret (results @ [result])))
            (\<lambda>ex. bnd (log_line (''Error checking '' @ str_opt (server ''name'') @ '': ''
                                  @ str_exn ex) ''error'')
                     (\<lambda>_. ret results)))
       (checks_loop self e rest)"

definition count_where :: "('a \<Rightarrow> bool) \<Rightarrow> 'a list \<Rightarrow> int" where
  "count_where P xs = int (length (filter P xs))"

definition run_checks :: "checker \<Rightarrow> env \<Rightarrow> check_result list prog" where
  "run_checks self e =
     bnd (log_line (replicate 60 CHR ''='') ''info'') (\<lambda>_.
     bnd (log_line (''Starting health checks for '' @ str_int (int (length (servers self)))
                    @ '' server(s)'') ''info'') (\<lambda>_.
     bnd (log_line (replicate 60 CHR ''='') ''info'') (\<lambda>_.
     bnd (checks_loop self e (servers self) []) (\<lambda>results.
     bnd (save_results self e results) (\<lambda>_.
     let healthy = count_where (\<lambda>r. res_status r = ''healthy'') results;
         warning = count_where (\<lambda>r. res_status r = ''warning'') results;
         critical = count_where (\<lambda>r. res_status r = ''critical'') results;
         down = count_where (\<lambda>r. \<not> res_reachable r) results
     in bnd (log_line (replicate 60 CHR ''='') ''info'') (\<lambda>_.
        bnd (log_line (''Check completed: '' @ str_int healthy @ '' healthy, ''
                       @ str_int warning @ '' warning, '' @ str_int critical
                       @ '' critical, '' @ str_int down @ '' down'') ''stat'') (\<lambda>_.
        bnd (log_line (replicate 60 CHR ''='') ''info'') (\<lambda>_.
        ret results))))))))"

text \<open>
  How a call of \<open>run_continuous\<close> stands once the runs described by a list of
  environments are over: it has returned, an exception has left it, or it is still in
  its loop.
\<close>

datatype outcome = Returned | Raised exn | Running

text \<open>
  \<open>time.sleep(interval)\<close>: a length that the platform cannot hold and a negative length
  are refused with an exception before any sleeping; otherwise the call sleeps, and
  \<open>KeyboardInterrupt\<close> is raised when the signal arrives meanwhile.
\<close>

datatype slept = Woke | Interrupted | Refused exn

definition sleep :: "env \<Rightarrow> int \<Rightarrow> slept" where
  "sleep e interval =
     (case sleep_error e interval of
        Some ex \<Rightarrow> Refused ex
      | None \<Rightarrow>
          if interval < 0 then Refused (ValueError ''sleep length must be non-negative'')
          else if interrupted e then Interrupted
          else Woke)"

text \<open>
  The \<open>while True\<close> loop inside the \<open>try\<close>: one environment per run. Only
  \<open>KeyboardInterrupt\<close> is caught, here the signal arriving during \<open>time.sleep\<close>.
\<close>

fun continuous_loop :: "checker \<Rightarrow> int \<Rightarrow> env list \<Rightarrow> world \<Rightarrow> outcome \<times> world" where
  "continuous_loop self interval [] w = (Running, w)"
| "continuous_loop self interval (e # es) w =
     (case run_checks self e w of
        (Inl ex, w') \<Rightarrow> (Raised ex, w')
      | (Inr results, w') \<Rightarrow>
          (case sleep e interval of
             Refused ex \<Rightarrow> (Raised ex, w')
           | Interrupted \<Rightarrow>
               (Returned, snd (log_line (CHR 0x0A # ''Stopped by user'') ''info'' w'))
           | Woke \<Rightarrow> continuous_loop self interval es w'))"

definition run_continuous :: "checker \<Rightarrow> int \<Rightarrow> env list \<Rightarrow> world \<Rightarrow> outcome \<times> world" where
  "run_continuous self interval es w =
     continuous_loop self interval es
       (snd (bnd (log_line (''Starting continuous monitoring (interval: ''
                            @ str_int interval @ ''s)'') ''info'')
               (\<lambda>_. log_line ''Press Ctrl+C to stop'' ''info'') w))"

subsection \<open>Outcomes as functions of the environment\<close>

text \<open>
  The definitions of this subsection are not in the source: they say, without the
  world, what the methods above return, and the properties below relate the two.

  \<open>ping_ok\<close> is the answer of the reachability probe; \<open>ssh_argv\<close> the process that
  \<open>ssh_execute\<close> starts, if any; \<open>ssh_output\<close> what \<open>ssh_execute\<close> returns when it
  returns; \<open>ssh_failed\<close> says that the process was started and did not end with exit
  status 0, which is when \<open>ssh_execute\<close> reaches one of its three log calls;
  \<open>key_error\<close> says that such a log call raises.
\<close>

definition ping_ok :: "env \<Rightarrow> server \<Rightarrow> bool" where
  "ping_ok e server =
     (case server ''ip'' of
        None \<Rightarrow> False
      | Some addr \<Rightarrow>
          (case run_proc e [''ping'', ''-c'', ''1'', ''-W'', ''2'', addr] of
             Completed returncode out err \<Rightarrow> returncode = 0
           | _ \<Rightarrow> False))"

text \<open>The processes that \<open>check_server_reachable\<close> starts: one ping, or none.\<close>

definition ping_argv :: "server \<Rightarrow> string list list" where
  "ping_argv server =
     (case server ''ip'' of
        None \<Rightarrow> []
      | Some addr \<Rightarrow> [[''ping'', ''-c'', ''1'', ''-W'', ''2'', addr]])"

definition ssh_argv :: "server \<Rightarrow> string \<Rightarrow> string list option" where
  "ssh_argv server command =
     (case server ''ip'' of
        None \<Rightarrow> None
      | Some addr \<Rightarrow>
          if addr = [] then None
          else Some (ssh_cmd (case server ''ssh_port'' of None \<Rightarrow> ''22'' | Some p \<Rightarrow> p)
                             (case server ''ssh_user'' of None \<Rightarrow> ''root'' | Some u \<Rightarrow> u)
                             addr command))"

definition ssh_output :: "env \<Rightarrow> server \<Rightarrow> string \<Rightarrow> string option" where
  "ssh_output e server command =
     (case ssh_argv server command of
        None \<Rightarrow> None
      | Some argv \<Rightarrow>
          (case run_proc e argv of
             Completed returncode out err \<Rightarrow> if returncode = 0 then Some (strip out) else None
           | _ \<Rightarrow> None))"

definition ssh_failed :: "env \<Rightarrow> server \<Rightarrow> string \<Rightarrow> bool" where
  "ssh_failed e server command =
     (case ssh_argv server command of
        None \<Rightarrow> False
      | Some argv \<Rightarrow>
          (case run_proc e argv of
             Completed returncode out err \<Rightarrow> returncode \<noteq> 0
           | _ \<Rightarrow> True))"

definition key_error :: "checker \<Rightarrow> server \<Rightarrow> bool" where
  "key_error self server = (verbose self \<and> server ''name'' = None)"

definition ssh_outcome :: "checker \<Rightarrow> env \<Rightarrow> server \<Rightarrow> string \<Rightarrow> exn + string option" where
  "ssh_outcome self e server command =
     (if key_error self server \<and> ssh_failed e server command
      then Inl (KeyError ''name'')
      else Inr (ssh_output e server command))"

text \<open>The services that resolve, in the order of the names.\<close>

fun resolved :: "env \<Rightarrow> server \<Rightarrow> string list \<Rightarrow> service list \<Rightarrow> service list" where
  "resolved e server [] results = results"
| "resolved e server (service # rest) results =
     (let output = ssh_output e server (service_command service)
      in if truthy output \<and> output \<noteq> Some ''not-found''
         then resolved e server rest
                (results @ [\<lparr>svc_name = service, svc_status = the output,
                              svc_running = (output = Some ''active'')\<rparr>])
         else resolved e server rest results)"

definition services_value :: "env \<Rightarrow> server \<Rightarrow> string list \<Rightarrow> service list option" where
  "services_value e server names =
     (if resolved e server names [] \<noteq> [] then Some (resolved e server names []) else None)"

text \<open>The seven metrics of a server, each from the output of its own commands.\<close>

definition metrics_of :: "env \<Rightarrow> server \<Rightarrow> metric_bundle" where
  "metrics_of e server =
     \<lparr>m_uptime = uptime_value (ssh_output e server ''uptime -p''),
      m_cpu = cpu_value e (ssh_output e server cpu_command),
      m_memory = memory_value (ssh_output e server ''free -m | grep Mem''),
      m_disk = disk_value (ssh_output e server disk_command),
      m_load = load_value e (ssh_output e server ''cat /proc/loadavg''),
      m_docker = docker_value (ssh_output e server docker_command),
      m_services = services_value e server default_services\<rparr>"

text \<open>The remote commands of one check, in the order in which they are run.\<close>

definition remote_commands :: "string list" where
  "remote_commands =
     [''uptime -p'', cpu_command, ''free -m | grep Mem'', disk_command,
      ''cat /proc/loadavg'', docker_command] @ map service_command default_services"

text \<open>
  \<open>check_raises\<close>: the check of this server ends with the \<open>KeyError\<close>. The server
  answers the ping, has no name while the checker is verbose, and one of its remote
  commands fails.
\<close>

definition collect_raises :: "checker \<Rightarrow> env \<Rightarrow> server \<Rightarrow> bool" where
  "collect_raises self e server =
     (key_error self server \<and> list_ex (ssh_failed e server) remote_commands)"

definition check_raises :: "checker \<Rightarrow> env \<Rightarrow> server \<Rightarrow> bool" where
  "check_raises self e server = (ping_ok e server \<and> collect_raises self e server)"

text \<open>The result of \<open>check_server\<close> when the clock reading for its timestamp is \<open>t\<close>.\<close>

definition down_result :: "env \<Rightarrow> server \<Rightarrow> nat \<Rightarrow> check_result" where
  "down_result e server t =
     \<lparr>res_name = (case server ''name'' of None \<Rightarrow> ''Unknown'' | Some n \<Rightarrow> n),
      res_ip = server ''ip'',
      res_type = (case server ''type'' of None \<Rightarrow> ''unknown'' | Some k \<Rightarrow> k),
      res_timestamp = isoformat e t,
      res_reachable = False,
      res_status = ''down'',
      res_metrics = None,
      res_warnings = None\<rparr>"

definition check_outcome :: "checker \<Rightarrow> env \<Rightarrow> server \<Rightarrow> nat \<Rightarrow> exn + check_result" where
  "check_outcome self e server t =
     (if \<not> ping_ok e server then Inr (down_result e server t)
      else if collect_raises self e server then Inl (KeyError ''name'')
      else Inr ((down_result e server t)
                 \<lparr>res_reachable := True,
                  res_metrics := Some (metrics_of e server),
                  res_status := fst (determine_status e (metrics_of e server)),
                  res_warnings := Some (snd (determine_status e (metrics_of e server)))\<rparr>))"

text \<open>What identifies a server in the inventory and in a result: the name and the address.\<close>

definition server_key :: "server \<Rightarrow> string \<times> string option" where
  "server_key server =
     (case server ''name'' of None \<Rightarrow> ''Unknown'' | Some n \<Rightarrow> n, server ''ip'')"

definition result_key :: "check_result \<Rightarrow> string \<times> string option" where
  "result_key r = (res_name r, res_ip r)"

text \<open>
  \<open>returns m P\<close>: from every world \<open>m\<close> returns normally, with a value that satisfies
  \<open>P\<close>. \<open>raises m P\<close>: from every world an exception that satisfies \<open>P\<close> leaves \<open>m\<close>.
\<close>

definition returns :: "'a prog \<Rightarrow> ('a \<Rightarrow> bool) \<Rightarrow> bool" where
  "returns m P = (\<forall>w. \<exists>x w'. m w = (Inr x, w') \<and> P x)"

definition raises :: "'a prog \<Rightarrow> (exn \<Rightarrow> bool) \<Rightarrow> bool" where
  "raises m P = (\<forall>w. \<exists>ex w'. m w = (Inl ex, w') \<and> P ex)"

text \<open>
  Remote output that does not have the shape a collector expects. Memory: fewer than
  four fields, a field among the second to the fourth that is not an integer, or a total
  of zero. Disk: no line with six fields whose fifth field, without its percent sign, is
  an integer. Load average: fewer than three fields, or one of the first three that
  \<open>float\<close> rejects.
\<close>

definition memory_malformed :: "string \<Rightarrow> bool" where
  "memory_malformed s =
     (let parts = split_ws s
      in length parts < 4 \<or> py_int (parts ! 1) = None \<or> py_int (parts ! 2) = None
         \<or> py_int (parts ! 3) = None \<or> py_int (parts ! 1) = Some 0)"

definition disk_malformed :: "string \<Rightarrow> bool" where
  "disk_malformed s =
     list_all (\<lambda>l. length (split_ws l) < 6
                    \<or> py_int (rstrip_char CHR ''%'' (split_ws l ! 4)) = None)
       (split_on (CHR 0x0A) s)"

definition load_malformed :: "env \<Rightarrow> string \<Rightarrow> bool" where
  "load_malformed e s =
     (let parts = split_ws s
      in length parts < 3 \<or> float_of_str e (parts ! 0) = None
         \<or> float_of_str e (parts ! 1) = None \<or> float_of_str e (parts ! 2) = None)"

text \<open>
  No disk row parses: the disk probe gives no output, or output in which no line is a
  row.
\<close>

definition no_disk_row :: "env \<Rightarrow> server \<Rightarrow> bool" where
  "no_disk_row e server =
     (case ssh_output e server disk_command of None \<Rightarrow> True | Some s \<Rightarrow> disk_malformed s)"

text \<open>A service whose probe gives no output or answers \<open>not-found\<close>.\<close>

definition unresolved :: "env \<Rightarrow> server \<Rightarrow> string \<Rightarrow> bool" where
  "unresolved e server service =
     (\<not> truthy (ssh_output e server (service_command service))
      \<or> ssh_output e server (service_command service) = Some ''not-found'')"

text \<open>
  A metric bundle in which the CPU check and the disk check find nothing: no CPU value
  above 80 and no disk above 85.
\<close>

definition quiet_cpu :: "metric_bundle \<Rightarrow> bool" where
  "quiet_cpu m =
     (case m_cpu m of None \<Rightarrow> True | Some c \<Rightarrow> \<not> (float_truthy c \<and> float_gt c 80))"

definition quiet_disks :: "metric_bundle \<Rightarrow> bool" where
  "quiet_disks m =
     (case m_disk m of None \<Rightarrow> True | Some ds \<Rightarrow> list_all (\<lambda>d. disk_percent d \<le> 85) ds)"

text \<open>
  For \<open>save_results\<close> started in the world \<open>w\<close>: the directory \<open>history\<close> right after the
  second write, the history records it then holds in the order of their names, and,
  for the cleanup, the files it deletes when \<open>k\<close> files are kept.
\<close>

definition written_history :: "env \<Rightarrow> check_result list \<Rightarrow> world \<Rightarrow> (string \<times> snapshot) list" where
  "written_history e results w =
     AList.update (file_stamp e (Suc (clock w)) @ ''.json'')
       \<lparr>snap_timestamp = isoformat e (Suc (Suc (clock w))), snap_servers = results\<rparr>
       (history w)"

definition records_after_write :: "env \<Rightarrow> check_result list \<Rightarrow> world \<Rightarrow> string list" where
  "records_after_write e results w =
     sort (filter is_json (map fst (written_history e results w)))"

definition doomed :: "nat \<Rightarrow> string list \<Rightarrow> string list" where
  "doomed k files = (if k < length files then all_but_last k files else [])"

subsection \<open>A small fleet to run the definitions on\<close>

text \<open>
  Five servers and one environment. \<open>web1\<close> answers the memory probe with
  \<open>Mem: 1000 850 150\<close>, the uptime probe with nothing, and fails every other probe;
  \<open>web2\<close> answers the memory probe with \<open>Mem: 1000 851 149\<close>, the disk probe with a
  row whose percent field is a dash, the probe of the service \<open>ssh\<close> with \<open>not-found\<close>,
  and fails every other probe; \<open>db1\<close> reports two disks, two containers and two services; \<open>anon\<close> has no name
  and refuses every connection; \<open>gone\<close> does not answer the ping. No probe that
  succeeds here is read as a float, so \<open>float_of_str\<close> is never called, and the only
  float printed is the one nearest to 85.1, whose text in Python is \<open>85.1\<close>.
\<close>

definition new_world :: world where
  "new_world = \<lparr>printed = [], spawned = [], clock = 0, current_json = None, history = []\<rparr>"

definition web1 :: server where
  "web1 = [''name'' \<mapsto> ''web1'', ''ip'' \<mapsto> ''10.0.0.1'', ''type'' \<mapsto> ''web'']"

definition web2 :: server where
  "web2 = [''name'' \<mapsto> ''web2'', ''ip'' \<mapsto> ''10.0.0.4'']"

definition db1 :: server where
  "db1 = [''name'' \<mapsto> ''db1'', ''ip'' \<mapsto> ''10.0.0.2'']"

definition anon :: server where
  "anon = [''ip'' \<mapsto> ''10.0.0.3'']"

definition gone :: server where
  "gone = [''name'' \<mapsto> ''gone'', ''ip'' \<mapsto> ''10.0.0.9'']"

definition demo_proc :: "string list \<Rightarrow> proc" where
  "demo_proc argv =
     (if hd argv = ''ping''
      then (if last argv = ''10.0.0.9'' then Completed 1 [] [] else Completed 0 [] [])
      else if argv ! 9 = ''root@10.0.0.1''
      then (if last argv = ''uptime -p'' then Completed 0 [] []
            else if last argv = ''free -m | grep Mem''
            then Completed 0 (''Mem: 1000 850 150'' @ [CHR 0x0A]) []
            else Completed 1 [] [])
      else if argv ! 9 = ''root@10.0.0.4''
      then (if last argv = ''free -m | grep Mem''
            then Completed 0 (''Mem: 1000 851 149'' @ [CHR 0x0A]) []
            else if last argv = disk_command
            then Completed 0 (''/dev/sda1 100G 97G 3G - /'' @ [CHR 0x0A]) []
            else if last argv = service_command ''ssh''
            then Completed 0 (''not-found'' @ [CHR 0x0A]) []
            else Completed 1 [] [])
      else if argv ! 9 = ''root@10.0.0.2''
      then (if last argv = ''uptime -p'' then Completed 0 (''up 3 weeks'' @ [CHR 0x0A]) []
            else if last argv = disk_command
            then Completed 0 (''/dev/sda1 100G 97G 3G 97% /'' @ [CHR 0x0A]
                              @ ''/dev/sdb1 100G 90G 10G 90% /data'' @ [CHR 0x0A]) []
            else if last argv = docker_command
            then Completed 0 (''api|Up 2 hours|running'' @ [CHR 0x0A]
                              @ ''job|Exited (0) 3 days ago|exited'' @ [CHR 0x0A]) []
            else if last argv = service_command ''ssh''
            then Completed 0 (''active'' @ [CHR 0x0A]) []
            else if last argv = service_command ''nginx''
            then Completed 0 (''inactive'' @ [CHR 0x0A]) []
            else Completed 1 [] [])
      else Completed 255 [] ''Connection refused'')"

definition demo_env :: env where
  "demo_env =
     \<lparr>run_proc = demo_proc, float_of_str = (\<lambda>s. None),
      str_of_float =
        (\<lambda>x. if x = Fin (2994190064759603 / 35184372088832) then ''85.1'' else []),
      isoformat = (\<lambda>n. ''2024-05-01T10:00:0'' @ str_int (int n)),
      file_stamp = (\<lambda>n. ''20240501_10000'' @ str_int (int n)),
      current_writable = True, history_writable = True,
      sleep_error = (\<lambda>i. None), interrupted = False\<rparr>"

text \<open>A world whose directory \<open>history\<close> holds one record and one other file.\<close>

definition old_world :: world where
  "old_world =
     new_world\<lparr>history :=
       [(''20240430_090000.json'',
         \<lparr>snap_timestamp = ''2024-04-30T09:00:00'', snap_servers = []\<rparr>),
        (''notes.txt'', \<lparr>snap_timestamp = [], snap_servers = []\<rparr>)]\<rparr>"

text \<open>A world with three records, named as three runs one minute apart would name them.\<close>

definition three_runs :: world where
  "three_runs =
     new_world\<lparr>history :=
       [(''20240501_100200.json'', \<lparr>snap_timestamp = ''2024-05-01T10:02:00'', snap_servers = []\<rparr>),
        (''20240501_100000.json'', \<lparr>snap_timestamp = ''2024-05-01T10:00:00'', snap_servers = []\<rparr>),
        (''20240501_100100.json'', \<lparr>snap_timestamp = ''2024-05-01T10:01:00'', snap_servers = []\<rparr>)]\<rparr>"

definition demo :: checker where
  "demo = \<lparr>output_dir = ''/tmp/health-monitor'', verbose = True,
            servers = [web1, anon, db1, gone]\<rparr>"

section \<open>Properties\<close>

subsection \<open>Sequencing\<close>

lemma bnd_ret_Inr:
  "bnd m (\<lambda>x. ret (f x)) w = (Inr v, w') \<Longrightarrow> \<exists>x. m w = (Inr x, w') \<and> v = f x"
  by (auto simp: bnd_def ret_def split: prod.splits sum.splits)

subsection \<open>Containers\<close>

lemma docker_loop_counts:
  "docker_loop ls (cs, r, s) = (cs', r', s') \<Longrightarrow>
   r = length (filter (\<lambda>c. ct_state c = ''running'') cs) \<Longrightarrow>
   s = length (filter (\<lambda>c. ct_state c \<noteq> ''running'') cs) \<Longrightarrow>
   r' = length (filter (\<lambda>c. ct_state c = ''running'') cs') \<and>
   s' = length (filter (\<lambda>c. ct_state c \<noteq> ''running'') cs')"
proof (induction ls arbitrary: cs r s)
  case Nil
  then show ?case by auto
next
  case (Cons l ls)
  show ?case
  proof (cases "CHR ''|'' \<in> set l \<and> 3 \<le> length (split_on CHR ''|'' l)")
    case False
    with Cons.prems have "docker_loop ls (cs, r, s) = (cs', r', s')"
      by (auto simp: Let_def split: if_splits)
    from Cons.IH[OF this Cons.prems(2,3)] show ?thesis .
  next
    case True
    let ?p = "split_on CHR ''|'' l"
    let ?c = "\<lparr>ct_name = ?p ! 0, ct_status = ?p ! 1, ct_state = ?p ! 2\<rparr>"
    from True Cons.prems(1)
    have step: "docker_loop ls (cs @ [?c],
                  if ?p ! 2 = ''running'' then r + 1 else r,
                  if ?p ! 2 = ''running'' then s else s + 1) = (cs', r', s')"
      by (simp add: Let_def)
    show ?thesis
      by (rule Cons.IH[OF step]) (use Cons.prems(2,3) in auto)
  qed
qed

lemma docker_value_counts:
  assumes "docker_value out = Some d"
  shows "dock_total d = length (dock_containers d)"
    and "dock_running d = length (filter (\<lambda>c. ct_state c = ''running'') (dock_containers d))"
    and "dock_stopped d = length (filter (\<lambda>c. ct_state c \<noteq> ''running'') (dock_containers d))"
proof -
  from assms obtain s cs r st where
    loop: "docker_loop (split_on (CHR 0x0A) s) ([], 0, 0) = (cs, r, st)" and
    d: "d = \<lparr>dock_total = length cs, dock_running = r, dock_stopped = st, dock_containers = cs\<rparr>"
    by (auto simp: docker_value_def split: option.splits if_splits prod.splits)
  from docker_loop_counts[OF loop] have
    "r = length (filter (\<lambda>c. ct_state c = ''running'') cs)"
    "st = length (filter (\<lambda>c. ct_state c \<noteq> ''running'') cs)" by simp_all
  with d show "dock_total d = length (dock_containers d)"
    and "dock_running d = length (filter (\<lambda>c. ct_state c = ''running'') (dock_containers d))"
    and "dock_stopped d = length (filter (\<lambda>c. ct_state c \<noteq> ''running'') (dock_containers d))"
    by simp_all
qed

text \<open>
  C9. Whenever \<open>get_docker_containers\<close> returns a dictionary, \<open>total\<close> is the length of
  \<open>containers\<close> and the sum of \<open>running\<close> and \<open>stopped\<close>, \<open>running\<close> counts the items
  whose state is \<open>running\<close> and \<open>stopped\<close> counts all the others.
\<close>

theorem docker_totals:
  assumes "get_docker_containers self e server w = (Inr (Some d), w')"
  shows "dock_total d = length (dock_containers d)
       \<and> dock_total d = dock_running d + dock_stopped d
       \<and> dock_running d = length (filter (\<lambda>c. ct_state c = ''running'') (dock_containers d))
       \<and> dock_stopped d = length (filter (\<lambda>c. ct_state c \<noteq> ''running'') (dock_containers d))"
proof -
  from assms obtain out where v: "docker_value out = Some d"
    unfolding get_docker_containers_def by (fastforce dest: bnd_ret_Inr)
  note c = docker_value_counts[OF v]
  have "length (dock_containers d) =
          length (filter (\<lambda>c. ct_state c = ''running'') (dock_containers d))
        + length (filter (\<lambda>c. ct_state c \<noteq> ''running'') (dock_containers d))"
    by (rule sum_length_filter_compl[symmetric])
  with c show ?thesis by simp
qed

lemma demo_docker:
  "fst (get_docker_containers demo demo_env db1 new_world) =
     Inr (Some \<lparr>dock_total = 2, dock_running = 1, dock_stopped = 1,
                 dock_containers =
                   [\<lparr>ct_name = ''api'', ct_status = ''Up 2 hours'', ct_state = ''running''\<rparr>,
                    \<lparr>ct_name = ''job'', ct_status = ''Exited (0) 3 days ago'',
                      ct_state = ''exited''\<rparr>]\<rparr>)"
  by code_simp

theorem docker_totals_witness:
  "\<exists>d w'. get_docker_containers demo demo_env db1 new_world = (Inr (Some d), w')
     \<and> dock_total d = 2 \<and> dock_total d = length (dock_containers d)
     \<and> dock_total d = dock_running d + dock_stopped d
     \<and> dock_running d = length (filter (\<lambda>c. ct_state c = ''running'') (dock_containers d))
     \<and> dock_stopped d = length (filter (\<lambda>c. ct_state c \<noteq> ''running'') (dock_containers d))"
proof -
  obtain d where d: "fst (get_docker_containers demo demo_env db1 new_world) = Inr (Some d)"
    and t: "dock_total d = 2"
    using demo_docker by simp
  then have run: "get_docker_containers demo demo_env db1 new_world =
      (Inr (Some d), snd (get_docker_containers demo demo_env db1 new_world))"
    by (metis prod.collapse)
  from docker_totals[OF run] t run show ?thesis by blast
qed

subsection \<open>What the methods return\<close>

text \<open>
  The value or exception of each method does not depend on the world it starts in,
  except for the clock reading that stamps the result of \<open>check_server\<close>.
\<close>

lemma fst_bnd:
  "fst (bnd m f w) = (case fst (m w) of Inl ex \<Rightarrow> Inl ex | Inr x \<Rightarrow> fst (f x (snd (m w))))"
  by (simp add: bnd_def split: prod.splits sum.splits)

lemma fst_ret: "fst (ret x w) = Inr x"
  by (simp add: ret_def)

lemma fst_log_line: "fst (log_line msg lvl w) = Inr ()"
  by (simp add: log_line_def bnd_def now_def)

lemma fst_ssh_execute: "fst (ssh_execute self e server cmd w) = ssh_outcome self e server cmd"
  by (auto simp: ssh_execute_def ssh_outcome_def ssh_output_def ssh_failed_def ssh_argv_def
        key_error_def log_failure_def subprocess_run_def bnd_def ret_def raise_def
        log_line_def now_def Let_def
      split: option.splits proc.splits)

lemma fst_get_uptime:
  "fst (get_uptime self e server w) =
     map_sum id uptime_value (ssh_outcome self e server ''uptime -p'')"
  by (simp add: get_uptime_def fst_bnd fst_ret fst_ssh_execute split: sum.splits)

lemma fst_get_cpu_usage:
  "fst (get_cpu_usage self e server w) =
     map_sum id (cpu_value e) (ssh_outcome self e server cpu_command)"
  by (simp add: get_cpu_usage_def fst_bnd fst_ret fst_ssh_execute split: sum.splits)

lemma fst_get_memory_usage:
  "fst (get_memory_usage self e server w) =
     map_sum id memory_value (ssh_outcome self e server ''free -m | grep Mem'')"
  by (simp add: get_memory_usage_def fst_bnd fst_ret fst_ssh_execute split: sum.splits)

lemma fst_get_disk_usage:
  "fst (get_disk_usage self e server w) =
     map_sum id disk_value (ssh_outcome self e server disk_command)"
  by (simp add: get_disk_usage_def fst_bnd fst_ret fst_ssh_execute split: sum.splits)

lemma fst_get_load_average:
  "fst (get_load_average self e server w) =
     map_sum id (load_value e) (ssh_outcome self e server ''cat /proc/loadavg'')"
  by (simp add: get_load_average_def fst_bnd fst_ret fst_ssh_execute split: sum.splits)

lemma fst_get_docker_containers:
  "fst (get_docker_containers self e server w) =
     map_sum id docker_value (ssh_outcome self e server docker_command)"
  by (simp add: get_docker_containers_def fst_bnd fst_ret fst_ssh_execute split: sum.splits)

lemma fst_services_loop:
  "fst (services_loop self e server names acc w) =
     (if key_error self server \<and> list_ex (\<lambda>n. ssh_failed e server (service_command n)) names
      then Inl (KeyError ''name'')
      else Inr (resolved e server names acc))"
proof (induction names arbitrary: acc w)
  case Nil
  show ?case by (simp add: fst_ret)
next
  case (Cons n names)
  show ?case
    by (simp add: fst_bnd fst_ssh_execute ssh_outcome_def Cons.IH Let_def)
qed

lemma fst_get_services_status:
  "fst (get_services_status self e server arg w) =
     (if key_error self server
         \<and> list_ex (\<lambda>n. ssh_failed e server (service_command n)) (service_names arg)
      then Inl (KeyError ''name'')
      else Inr (services_value e server (service_names arg)))"
  by (simp add: get_services_status_def fst_bnd fst_ret fst_services_loop services_value_def)

lemma service_names_None: "service_names None = default_services"
  by (simp add: service_names_def)

lemma fst_collect_metrics:
  "fst (collect_metrics self e server w) =
     (if collect_raises self e server then Inl (KeyError ''name'')
      else Inr (metrics_of e server))"
  by (simp add: collect_metrics_def fst_bnd fst_ret fst_get_uptime fst_get_cpu_usage
        fst_get_memory_usage fst_get_disk_usage fst_get_load_average
        fst_get_docker_containers fst_get_services_status service_names_None
        ssh_outcome_def collect_raises_def remote_commands_def metrics_of_def
        list_ex_iff)

lemma fst_check_server_reachable:
  "fst (check_server_reachable e server w) = Inr (ping_ok e server)"
  by (simp add: check_server_reachable_def ping_ok_def fst_bnd fst_ret subprocess_run_def
           ret_def split: option.splits proc.splits)

lemma clock_log_line: "clock (snd (log_line msg lvl w)) = Suc (clock w)"
  by (simp add: log_line_def bnd_def now_def)

lemma fst_check_server:
  "fst (check_server self e server w) = check_outcome self e server (Suc (clock w))"
  by (simp add: check_server_def check_outcome_def down_result_def Let_def fst_bnd fst_ret
        fst_log_line fst_check_server_reachable fst_collect_metrics clock_log_line
        now_def split: prod.splits)

subsection \<open>The store\<close>

lemma log_line_run:
  "log_line msg lvl w =
     (Inr (), w\<lparr>clock := Suc (clock w), printed := printed w @ [(clock w, msg, lvl)]\<rparr>)"
  by (simp add: log_line_def bnd_def now_def)

lemma write_current_run:
  "current_writable e \<Longrightarrow>
   write_current self e results w =
     (Inr (), w\<lparr>clock := Suc (clock w),
                current_json := Some \<lparr>snap_timestamp = isoformat e (clock w),
                                       snap_servers = results\<rparr>\<rparr>)"
  by (simp add: write_current_def bnd_def now_def)

lemma write_history_run:
  "history_writable e \<Longrightarrow>
   write_history self e results w =
     (Inr (), w\<lparr>clock := Suc (Suc (clock w)),
                history := AList.update (file_stamp e (clock w) @ ''.json'')
                             \<lparr>snap_timestamp = isoformat e (Suc (clock w)),
                              snap_servers = results\<rparr> (history w)\<rparr>)"
  by (simp add: write_history_def bnd_def now_def Let_def)

lemma unlink_all_run:
  "unlink_all fs w = (Inr (), w\<lparr>history := fold AList.delete fs (history w)\<rparr>)"
proof (induction fs arbitrary: w)
  case Nil
  show ?case by (simp add: ret_def)
next
  case (Cons f fs)
  show ?case by (simp add: bnd_def unlink_def Cons.IH)
qed

lemma keys_fold_delete:
  "map fst (fold AList.delete fs h) = filter (\<lambda>f. f \<notin> set fs) (map fst h)"
proof (induction fs arbitrary: h)
  case Nil
  show ?case by simp
next
  case (Cons f fs)
  show ?case
    by (auto simp: Cons.IH delete_keys removeAll_filter_not_eq intro!: filter_cong)
qed

lemma filter_not_in_prefix:
  "set ys \<inter> set zs = {} \<Longrightarrow> filter (\<lambda>x. x \<notin> set ys) (ys @ zs) = zs"
  by (auto simp: filter_empty_conv filter_id_conv)

lemma filter_not_in_take:
  assumes "distinct xs"
  shows "filter (\<lambda>x. x \<notin> set (take k xs)) xs = drop k xs"
proof -
  from assms have "set (take k xs) \<inter> set (drop k xs) = {}"
    by (metis append_take_drop_id distinct_append)
  from filter_not_in_prefix[OF this] show ?thesis by simp
qed

lemma clean_old_history_run:
  "clean_old_history k w =
     (Inr (), w\<lparr>history := fold AList.delete (doomed k (history_files w)) (history w)\<rparr>)"
  by (simp add: clean_old_history_def doomed_def unlink_all_run)

lemma doomed_take:
  "0 < k \<Longrightarrow> doomed k files = take (length files - k) files"
  by (simp add: doomed_def all_but_last_def)

lemma history_files_after_clean:
  assumes "distinct (map fst (history w))" and "0 < k"
  shows "history_files (snd (clean_old_history k w)) =
           drop (length (history_files w) - k) (history_files w)"
proof -
  let ?files = "history_files w"
  have dist: "distinct ?files"
    using assms(1) by (simp add: history_files_def distinct_map_filter)
  have "history_files (snd (clean_old_history k w)) =
          sort (filter is_json (filter (\<lambda>f. f \<notin> set (doomed k ?files)) (map fst (history w))))"
    by (simp add: clean_old_history_run history_files_def keys_fold_delete)
  also have "\<dots> = filter (\<lambda>f. f \<notin> set (doomed k ?files)) ?files"
    by (simp add: history_files_def filter_sort conj_commute)
  also have "\<dots> = drop (length ?files - k) ?files"
    using dist assms(2) by (simp add: doomed_take filter_not_in_take)
  finally show ?thesis .
qed


lemma save_results_run:
  assumes "current_writable e" and "history_writable e"
  shows "\<exists>w'. save_results self e results w = (Inr (), w')
           \<and> history w' = fold AList.delete (doomed 1000 (records_after_write e results w))
                             (written_history e results w)
           \<and> current_json w' = Some \<lparr>snap_timestamp = isoformat e (clock w),
                                       snap_servers = results\<rparr>"
  using assms
  by (simp add: save_results_def bnd_def write_current_run write_history_run
        clean_old_history_run log_line_run history_files_def records_after_write_def
        written_history_def)

lemma sorted_distinct_take_drop:
  assumes "sorted xs" and "distinct xs" and "x \<in> set (take k xs)" and "y \<in> set (drop k xs)"
  shows "x < y"
proof -
  from assms(1) have "sorted (take k xs @ drop k xs)" by simp
  then have "x \<le> y" using assms(3,4) unfolding sorted_append by blast
  moreover from assms(2) have "set (take k xs) \<inter> set (drop k xs) = {}"
    by (metis append_take_drop_id distinct_append)
  with assms(3,4) have "x \<noteq> y" by blast
  ultimately show ?thesis by simp
qed

text \<open>
  C2. A call of \<open>save_results\<close> that can write its two files returns, and afterwards at
  most 1000 history records remain: they are the last 1000, in the order of their names,
  of the records present after the write (all of them when there are at most 1000); the
  files deleted are the first \<open>count - 1000\<close> records in that order, each with a smaller
  name than every record kept; \<open>current.json\<close> holds the new snapshot; and with at most
  1000 records nothing is deleted. The names in the directory are taken to be distinct.
\<close>

theorem save_results_retention:
  assumes "distinct (map fst (history w))"
    and "current_writable e" and "history_writable e"
  shows "\<exists>w'. save_results self e results w = (Inr (), w')
     \<and> length (history_files w') \<le> 1000
     \<and> history_files w' =
         drop (length (records_after_write e results w) - 1000) (records_after_write e results w)
     \<and> map fst (history w') =
         filter (\<lambda>f. f \<notin> set (take (length (records_after_write e results w) - 1000)
                                   (records_after_write e results w)))
           (map fst (written_history e results w))
     \<and> (\<forall>x \<in> set (take (length (records_after_write e results w) - 1000)
                       (records_after_write e results w)).
          \<forall>y \<in> set (history_files w'). x < y)
     \<and> current_json w' =
         Some \<lparr>snap_timestamp = isoformat e (clock w), snap_servers = results\<rparr>
     \<and> (length (records_after_write e results w) \<le> 1000 \<longrightarrow>
          history w' = written_history e results w)"
proof -
  let ?recs = "records_after_write e results w"
  let ?written = "written_history e results w"
  let ?old = "take (length ?recs - 1000) ?recs"
  from save_results_run[OF assms(2,3)] obtain w' where
    run: "save_results self e results w = (Inr (), w')" and
    hist: "history w' = fold AList.delete (doomed 1000 ?recs) ?written" and
    cur: "current_json w' = Some \<lparr>snap_timestamp = isoformat e (clock w), snap_servers = results\<rparr>"
    by blast
  have doomed: "doomed 1000 ?recs = ?old"
    by (simp add: doomed_take)
  have dw: "distinct (map fst ?written)"
    using assms(1) by (simp add: written_history_def distinct_update)
  have dr: "distinct ?recs"
    using dw by (simp add: records_after_write_def distinct_map_filter)
  have sr: "sorted ?recs"
    by (simp add: records_after_write_def)
  have keys: "map fst (history w') = filter (\<lambda>f. f \<notin> set ?old) (map fst ?written)"
    by (simp add: hist doomed keys_fold_delete)
  have "history_files w' = filter (\<lambda>f. f \<notin> set ?old) ?recs"
    by (simp add: history_files_def keys records_after_write_def filter_sort conj_commute)
  then have files: "history_files w' = drop (length ?recs - 1000) ?recs"
    using dr by (simp add: filter_not_in_take)
  have len: "length (history_files w') \<le> 1000"
    by (simp add: files)
  have order: "\<forall>x \<in> set ?old. \<forall>y \<in> set (history_files w'). x < y"
    using sorted_distinct_take_drop[OF sr dr] by (simp add: files)
  have keep: "length ?recs \<le> 1000 \<longrightarrow> history w' = ?written"
    by (simp add: hist doomed_def)
  from run len files keys order cur keep show ?thesis by blast
qed

lemma old_world_records:
  "records_after_write demo_env [] old_world = [''20240430_090000.json'', ''20240501_100001.json'']"
  by code_simp

lemma old_world_ok:
  "distinct (map fst (history old_world))" "current_writable demo_env" "history_writable demo_env"
  by code_simp+

theorem save_results_retention_witness:
  "\<exists>w'. save_results demo demo_env [] old_world = (Inr (), w')
     \<and> length (history_files w') \<le> 1000
     \<and> history_files w' = [''20240430_090000.json'', ''20240501_100001.json'']
     \<and> current_json w' = Some \<lparr>snap_timestamp = ''2024-05-01T10:00:00'', snap_servers = []\<rparr>"
proof -
  have iso: "isoformat demo_env (clock old_world) = ''2024-05-01T10:00:00''"
    by code_simp
  from save_results_retention[OF old_world_ok, of demo "[]"] obtain w' where
    "save_results demo demo_env [] old_world = (Inr (), w')"
    "length (history_files w') \<le> 1000"
    "history_files w' = drop (length (records_after_write demo_env [] old_world) - 1000)
                          (records_after_write demo_env [] old_world)"
    "current_json w' = Some \<lparr>snap_timestamp = isoformat demo_env (clock old_world),
                                snap_servers = []\<rparr>"
    by blast
  then show ?thesis
    by (simp add: old_world_records iso)
qed

text \<open>Keeping two of three records deletes the oldest one.\<close>

lemma keep_two_of_three:
  "history_files three_runs =
     [''20240501_100000.json'', ''20240501_100100.json'', ''20240501_100200.json'']"
  "history_files (snd (clean_old_history 2 three_runs)) =
     [''20240501_100100.json'', ''20240501_100200.json'']"
  by code_simp+

text \<open>
  A call that fails to write deletes nothing and adds nothing to the directory, so the
  bound of 1000 records, once it holds, holds after every call.
\<close>

lemma history_cap_kept:
  assumes "distinct (map fst (history w))" and "length (history_files w) \<le> 1000"
  shows "length (history_files (snd (save_results self e results w))) \<le> 1000"
proof (cases "current_writable e")
  case False
  then show ?thesis
    using assms(2) by (simp add: save_results_def bnd_def write_current_def raise_def)
next
  case cw: True
  show ?thesis
  proof (cases "history_writable e")
    case False
    then show ?thesis
      using assms(2) cw
      by (simp add: save_results_def bnd_def write_current_run write_history_def raise_def
            now_def Let_def history_files_def)
  next
    case True
    have dw: "distinct (map fst (written_history e results w))"
      using assms(1) by (simp add: written_history_def distinct_update)
    from save_results_run[OF cw True, of self results w] obtain w' where
      run: "save_results self e results w = (Inr (), w')" and
      hist: "history w' = fold AList.delete (doomed 1000 (records_after_write e results w))
                            (written_history e results w)"
      by blast
    have "history_files w' =
            filter (\<lambda>f. f \<notin> set (doomed 1000 (records_after_write e results w)))
              (records_after_write e results w)"
      by (simp add: history_files_def hist keys_fold_delete records_after_write_def
            filter_sort conj_commute)
    also have "\<dots> = drop (length (records_after_write e results w) - 1000)
                       (records_after_write e results w)"
      using dw by (simp add: doomed_take filter_not_in_take records_after_write_def
                     distinct_map_filter)
    finally have "length (history_files w') \<le> 1000" by simp
    with run show ?thesis by simp
  qed
qed

subsection \<open>Unreachable hosts\<close>

lemma check_server_reachable_run:
  "check_server_reachable e server w =
     (Inr (ping_ok e server), w\<lparr>spawned := spawned w @ ping_argv server\<rparr>)"
  by (simp add: check_server_reachable_def ping_ok_def ping_argv_def bnd_def ret_def
        subprocess_run_def split: option.splits proc.splits)

lemma check_server_down_spawned:
  "\<not> ping_ok e server \<Longrightarrow>
   spawned (snd (check_server self e server w)) = spawned w @ ping_argv server"
  by (simp add: check_server_def Let_def bnd_def log_line_run now_def
        check_server_reachable_run ret_def)

lemma check_server_Inr:
  assumes "check_server self e server w = (Inr r, w')"
  shows "check_outcome self e server (Suc (clock w)) = Inr r"
  using fst_check_server[of self e server w] assms by simp

lemma check_outcome_reachable:
  "check_outcome self e server t = Inr r \<Longrightarrow> res_reachable r = ping_ok e server"
  by (auto simp: check_outcome_def down_result_def split: if_splits)

text \<open>
  C3. A result of \<open>check_server\<close> with \<open>reachable = False\<close> has the status \<open>down\<close> and
  an empty dictionary of metrics, and the only process started for it is the ping of
  the reachability probe: no collector has run a remote command.
\<close>

theorem unreachable_is_down:
  assumes "check_server self e server w = (Inr r, w')" and "\<not> res_reachable r"
  shows "res_status r = ''down'' \<and> res_metrics r = None
       \<and> spawned w' = spawned w @ ping_argv server"
proof -
  note out = check_server_Inr[OF assms(1)]
  with assms(2) have down: "\<not> ping_ok e server"
    by (simp add: check_outcome_reachable)
  with out have "r = down_result e server (Suc (clock w))"
    by (simp add: check_outcome_def)
  moreover from check_server_down_spawned[OF down, of self w] assms(1)
  have "spawned w' = spawned w @ ping_argv server" by simp
  ultimately show ?thesis by (simp add: down_result_def)
qed

lemma demo_gone:
  "fst (check_server demo demo_env gone new_world) =
     Inr \<lparr>res_name = ''gone'', res_ip = Some ''10.0.0.9'', res_type = ''unknown'',
          res_timestamp = ''2024-05-01T10:00:01'', res_reachable = False,
          res_status = ''down'', res_metrics = None, res_warnings = None\<rparr>"
  unfolding fst_check_server by code_simp

lemma demo_gone_ping:
  "spawned new_world @ ping_argv gone = [[''ping'', ''-c'', ''1'', ''-W'', ''2'', ''10.0.0.9'']]"
  by code_simp

theorem unreachable_is_down_witness:
  "\<exists>r w'. check_server demo demo_env gone new_world = (Inr r, w')
     \<and> res_reachable r = False \<and> res_status r = ''down'' \<and> res_metrics r = None
     \<and> spawned w' = [[''ping'', ''-c'', ''1'', ''-W'', ''2'', ''10.0.0.9'']]"
proof -
  let ?r = "\<lparr>res_name = ''gone'', res_ip = Some ''10.0.0.9'', res_type = ''unknown'',
          res_timestamp = ''2024-05-01T10:00:01'', res_reachable = False,
          res_status = ''down'', res_metrics = None, res_warnings = None\<rparr>"
  obtain w' where run: "check_server demo demo_env gone new_world = (Inr ?r, w')"
    using demo_gone by (metis prod.collapse)
  have "\<not> res_reachable ?r" by simp
  from unreachable_is_down[OF run this]
  have sp: "spawned w' = [[''ping'', ''-c'', ''1'', ''-W'', ''2'', ''10.0.0.9'']]"
    by (simp add: demo_gone_ping)
  show ?thesis
    by (rule exI[of _ ?r], rule exI[of _ w']) (simp add: run sp)
qed

subsection \<open>The key warnings\<close>

text \<open>
  C8, as stated, fails on an unreachable host: the dictionary returned for \<open>gone\<close> has
  no key \<open>warnings\<close>.
\<close>

theorem down_result_has_no_warnings:
  "map_sum id res_warnings (fst (check_server demo demo_env gone new_world)) = Inr None"
  by (simp add: demo_gone)

text \<open>
  C8, amended. Every result of \<open>check_server\<close> has the seven keys of the record; the key
  \<open>warnings\<close> is present exactly in the results of reachable hosts.
\<close>

theorem warnings_only_when_reachable:
  assumes "check_server self e server w = (Inr r, w')"
  shows "(\<exists>ws. res_warnings r = Some ws) = res_reachable r"
  using check_server_Inr[OF assms]
  by (auto simp: check_outcome_def down_result_def split: if_splits)

lemma demo_web1:
  "fst (check_server demo demo_env web1 new_world) =
     Inr \<lparr>res_name = ''web1'', res_ip = Some ''10.0.0.1'', res_type = ''web'',
          res_timestamp = ''2024-05-01T10:00:01'', res_reachable = True,
          res_status = ''healthy'',
          res_metrics =
            Some \<lparr>m_uptime = Some ''Unknown'', m_cpu = None,
                  m_memory = Some \<lparr>mem_total = 1000, mem_used = 850, mem_free = 150,
                                    mem_percent = Fin 85\<rparr>,
                  m_disk = None, m_load = None, m_docker = None, m_services = None\<rparr>,
          res_warnings = Some []\<rparr>"
  unfolding fst_check_server by code_simp

theorem warnings_only_when_reachable_witness:
  "\<exists>r w'. check_server demo demo_env web1 new_world = (Inr r, w')
      \<and> res_reachable r \<and> res_warnings r = Some []"
proof -
  obtain r where r: "fst (check_server demo demo_env web1 new_world) = Inr r"
    and s: "res_warnings r = Some []" "res_reachable r"
    using demo_web1 by simp
  then have run: "check_server demo demo_env web1 new_world =
               (Inr r, snd (check_server demo demo_env web1 new_world))"
    by (metis prod.collapse)
  from warnings_only_when_reachable[OF run] s run show ?thesis by blast
qed

subsection \<open>Severity\<close>

text \<open>
  The disk loop keeps no maximum: whatever the disks before it did, a last disk between
  86 and 95 percent leaves the status \<open>warning\<close>.
\<close>

lemma check_disk_loop_append:
  "check_disk_loop (xs @ ys) sw = check_disk_loop ys (check_disk_loop xs sw)"
  by (induction xs arbitrary: sw) (auto simp: split_paired_all)

lemma last_disk_overwrites:
  "85 < disk_percent d \<Longrightarrow> disk_percent d \<le> 95 \<Longrightarrow>
   fst (check_disk_loop (ds @ [d]) sw) = ''warning''"
  by (cases "check_disk_loop ds sw") (simp add: check_disk_loop_append)

text \<open>
  C1. The status is not the maximum severity: \<open>db1\<close> has a disk at 97 percent followed
  by a disk at 90 percent, and \<open>check_server\<close> reports \<open>warning\<close>, because every disk
  above 85 overwrites the status set by the disks before it.
\<close>

theorem critical_disk_masked:
  "fst (check_server demo demo_env db1 new_world) =
     Inr \<lparr>res_name = ''db1'', res_ip = Some ''10.0.0.2'', res_type = ''unknown'',
          res_timestamp = ''2024-05-01T10:00:01'', res_reachable = True,
          res_status = ''warning'',
          res_metrics =
            Some \<lparr>m_uptime = Some ''up 3 weeks'', m_cpu = None, m_memory = None,
                  m_disk =
                    Some [\<lparr>disk_device = ''/dev/sda1'', disk_size = ''100G'',
                            disk_used = ''97G'', disk_available = ''3G'',
                            disk_percent = 97, disk_mount = ''/''\<rparr>,
                          \<lparr>disk_device = ''/dev/sdb1'', disk_size = ''100G'',
                            disk_used = ''90G'', disk_available = ''10G'',
                            disk_percent = 90, disk_mount = ''/data''\<rparr>],
                  m_load = None,
                  m_docker =
                    Some \<lparr>dock_total = 2, dock_running = 1, dock_stopped = 1,
                          dock_containers =
                            [\<lparr>ct_name = ''api'', ct_status = ''Up 2 hours'',
                              ct_state = ''running''\<rparr>,
                             \<lparr>ct_name = ''job'', ct_status = ''Exited (0) 3 days ago'',
                              ct_state = ''exited''\<rparr>]\<rparr>,
                  m_services =
                    Some [\<lparr>svc_name = ''ssh'', svc_status = ''active'', svc_running = True\<rparr>,
                          \<lparr>svc_name = ''nginx'', svc_status = ''inactive'',
                            svc_running = False\<rparr>]\<rparr>,
          res_warnings = Some [''High Disk (/): 97%'', ''High Disk (/data): 90%'']\<rparr>"
  unfolding fst_check_server by code_simp

subsection \<open>The memory threshold\<close>

text \<open>
  C7, as stated, fails: \<open>web1\<close> reports \<open>Mem: 1000 850 150\<close> and nothing else; its
  memory metric has percent 85.0, its status is \<open>healthy\<close> and it has no warning.
\<close>

theorem memory_85_is_healthy:
  "map_sum id res_status (fst (check_server demo demo_env web1 new_world)) = Inr ''healthy''
 \<and> map_sum id res_warnings (fst (check_server demo demo_env web1 new_world)) = Inr (Some [])
 \<and> map_sum id res_metrics (fst (check_server demo demo_env web1 new_world)) =
     Inr (Some \<lparr>m_uptime = Some ''Unknown'', m_cpu = None,
                 m_memory = Some \<lparr>mem_total = 1000, mem_used = 850, mem_free = 150,
                                   mem_percent = Fin 85\<rparr>,
                 m_disk = None, m_load = None, m_docker = None, m_services = None\<rparr>)"
  by (simp add: demo_web1)

lemma check_server_status:
  assumes "check_server self e server w = (Inr r, w')" and "res_metrics r = Some m"
  shows "res_status r = fst (determine_status e m)"
    and "res_warnings r = Some (snd (determine_status e m))"
  using check_server_Inr[OF assms(1)] assms(2)
  by (auto simp: check_outcome_def down_result_def split: if_splits)

lemma check_disk_loop_quiet:
  "list_all (\<lambda>d. disk_percent d \<le> 85) ds \<Longrightarrow> check_disk_loop ds sw = sw"
  by (induction ds arbitrary: sw) (auto simp: split_paired_all)

lemma check_disk_quiet: "quiet_disks m \<Longrightarrow> check_disk m sw = sw"
  by (auto simp: quiet_disks_def check_disk_def check_disk_loop_quiet split: option.splits)

lemma check_cpu_quiet: "quiet_cpu m \<Longrightarrow> check_cpu e m sw = sw"
  by (auto simp: quiet_cpu_def check_cpu_def split: option.splits)

lemma parse_memory_85:
  "parse_memory ''Mem: 1000 850 150'' =
     Some \<lparr>mem_total = 1000, mem_used = 850, mem_free = 150, mem_percent = Fin 85\<rparr>"
  by code_simp

text \<open>
  C7, amended. The line \<open>Mem: 1000 850 150\<close> parses to total 1000, used 850, free 150
  and percent 85.0. The threshold is strict: a reachable host with that memory metric
  and no other triggering metric is \<open>healthy\<close> without warnings, and one whose memory
  percent is above 85 has status \<open>warning\<close> and the one warning
  \<open>High Memory: X%\<close>, \<open>X\<close> the text of the percent.
\<close>

theorem memory_threshold_is_strict:
  assumes "check_server self e server w = (Inr r, w')" and "res_metrics r = Some m"
    and "quiet_cpu m" and "quiet_disks m"
  shows "parse_memory ''Mem: 1000 850 150'' =
           Some \<lparr>mem_total = 1000, mem_used = 850, mem_free = 150, mem_percent = Fin 85\<rparr>
       \<and> (m_memory m = parse_memory ''Mem: 1000 850 150'' \<longrightarrow>
            res_status r = ''healthy'' \<and> res_warnings r = Some [])
       \<and> (\<forall>mem. m_memory m = Some mem \<and> float_gt (mem_percent mem) 85 \<longrightarrow>
            res_status r = ''warning''
            \<and> res_warnings r =
                Some [''High Memory: '' @ str_of_float e (mem_percent mem) @ ''%''])"
proof -
  have ds: "determine_status e m = check_memory e m (''healthy'', [])"
    using assms(3,4) by (simp add: determine_status_def check_disk_quiet check_cpu_quiet)
  have "\<not> float_gt (Fin 85) 85" by (simp add: float_gt_def)
  then have a: "m_memory m = parse_memory ''Mem: 1000 850 150'' \<longrightarrow>
            determine_status e m = (''healthy'', [])"
    by (simp add: ds parse_memory_85 check_memory_def)
  have b: "\<forall>mem. m_memory m = Some mem \<and> float_gt (mem_percent mem) 85 \<longrightarrow>
            determine_status e m =
              (''warning'', [''High Memory: '' @ str_of_float e (mem_percent mem) @ ''%''])"
    by (simp add: ds check_memory_def)
  note st = check_server_status[OF assms(1,2)]
  from a b show ?thesis
    by (auto simp: st parse_memory_85)
qed

lemma demo_web2:
  "fst (check_server demo demo_env web2 new_world) =
     Inr \<lparr>res_name = ''web2'', res_ip = Some ''10.0.0.4'', res_type = ''unknown'',
          res_timestamp = ''2024-05-01T10:00:01'', res_reachable = True,
          res_status = ''warning'',
          res_metrics =
            Some \<lparr>m_uptime = Some ''Unknown'', m_cpu = None,
                  m_memory = Some \<lparr>mem_total = 1000, mem_used = 851, mem_free = 149,
                                    mem_percent = Fin (2994190064759603 / 35184372088832)\<rparr>,
                  m_disk = None, m_load = None, m_docker = None, m_services = None\<rparr>,
          res_warnings = Some [''High Memory: 85.1%'']\<rparr>"
  unfolding fst_check_server by code_simp

theorem memory_threshold_is_strict_witness:
  "(\<exists>r w'. check_server demo demo_env web1 new_world = (Inr r, w')
       \<and> map_option mem_percent (Option.bind (res_metrics r) m_memory) = Some (Fin 85)
       \<and> res_status r = ''healthy'' \<and> res_warnings r = Some [])
 \<and> (\<exists>r w'. check_server demo demo_env web2 new_world = (Inr r, w')
       \<and> res_status r = ''warning'' \<and> res_warnings r = Some [''High Memory: 85.1%''])"
proof -
  let ?m1 = "\<lparr>m_uptime = Some ''Unknown'', m_cpu = None,
              m_memory = Some \<lparr>mem_total = 1000, mem_used = 850, mem_free = 150,
                                mem_percent = Fin 85\<rparr>,
              m_disk = None, m_load = None, m_docker = None, m_services = None\<rparr>"
  let ?x = "Fin (2994190064759603 / 35184372088832)"
  let ?mem2 = "\<lparr>mem_total = 1000, mem_used = 851, mem_free = 149, mem_percent = ?x\<rparr>"
  let ?m2 = "\<lparr>m_uptime = Some ''Unknown'', m_cpu = None, m_memory = Some ?mem2,
              m_disk = None, m_load = None, m_docker = None, m_services = None\<rparr>"
  obtain r1 w1 where run1: "check_server demo demo_env web1 new_world = (Inr r1, w1)"
    and m1: "res_metrics r1 = Some ?m1"
    using demo_web1 by (metis prod.collapse check_result.select_convs(7))
  obtain r2 w2 where run2: "check_server demo demo_env web2 new_world = (Inr r2, w2)"
    and m2: "res_metrics r2 = Some ?m2"
    using demo_web2 by (metis prod.collapse check_result.select_convs(7))
  have q1: "quiet_cpu ?m1" "quiet_disks ?m1" and q2: "quiet_cpu ?m2" "quiet_disks ?m2"
    by (simp_all add: quiet_cpu_def quiet_disks_def)
  have gt: "float_gt (mem_percent ?mem2) 85"
    by (simp add: float_gt_def)
  have shown: "str_of_float demo_env ?x = ''85.1''"
    by (simp add: demo_env_def)
  from memory_threshold_is_strict[OF run1 m1 q1]
  have a: "res_status r1 = ''healthy'' \<and> res_warnings r1 = Some []"
    by simp
  from memory_threshold_is_strict[OF run2 m2 q2] gt
  have b: "res_status r2 = ''warning'' \<and> res_warnings r2 = Some [''High Memory: 85.1%'']"
    by (simp add: shown)
  from run1 m1 a run2 b show ?thesis by force
qed

subsection \<open>Programs that always return, programs that always raise\<close>

lemma returns_ret: "P x \<Longrightarrow> returns (ret x) P"
  by (simp add: returns_def ret_def)

lemma returns_log_line: "returns (log_line msg lvl) (\<lambda>_. True)"
  by (simp add: returns_def log_line_run)

lemma returns_bnd:
  assumes "returns m P" and "\<And>x. P x \<Longrightarrow> returns (f x) Q"
  shows "returns (bnd m f) Q"
  unfolding returns_def
proof
  fix w
  from assms(1) obtain x w1 where m: "m w = (Inr x, w1)" and "P x"
    unfolding returns_def by blast
  from assms(2)[OF \<open>P x\<close>] obtain y w2 where "f x w1 = (Inr y, w2)" and "Q y"
    unfolding returns_def by blast
  with m show "\<exists>y w'. bnd m f w = (Inr y, w') \<and> Q y"
    by (simp add: bnd_def)
qed

lemma raises_bnd:
  assumes "returns m P" and "\<And>x. P x \<Longrightarrow> raises (f x) Q"
  shows "raises (bnd m f) Q"
  unfolding raises_def
proof
  fix w
  from assms(1) obtain x w1 where m: "m w = (Inr x, w1)" and "P x"
    unfolding returns_def by blast
  from assms(2)[OF \<open>P x\<close>] obtain ex w2 where "f x w1 = (Inl ex, w2)" and "Q ex"
    unfolding raises_def by blast
  with m show "\<exists>ex w'. bnd m f w = (Inl ex, w') \<and> Q ex"
    by (simp add: bnd_def)
qed

lemma raises_bnd_first: "raises m Q \<Longrightarrow> raises (bnd m f) Q"
  unfolding raises_def bnd_def
  by (metis (mono_tags, lifting) old.sum.simps(5) case_prod_conv)

lemma check_outcome_raises:
  "check_raises self e server \<Longrightarrow> check_outcome self e server t = Inl (KeyError ''name'')"
  by (simp add: check_raises_def check_outcome_def)

lemma check_outcome_returns:
  "\<not> check_raises self e server \<Longrightarrow>
   \<exists>r. check_outcome self e server t = Inr r \<and> result_key r = server_key server"
  by (auto simp: check_raises_def check_outcome_def down_result_def result_key_def
        server_key_def)

lemma checks_loop_returns:
  "returns (checks_loop self e srvs acc)
     (\<lambda>rs. map result_key rs =
            map result_key acc @ map server_key (filter (\<lambda>s. \<not> check_raises self e s) srvs))"
proof (induction srvs arbitrary: acc)
  case Nil
  show ?case by (simp add: returns_ret)
next
  case (Cons server rest)
  let ?step = "try_except
            (bnd (check_server self e server) (\<lambda>result. ret (acc @ [result])))
            (\<lambda>ex. bnd (log_line (''Error checking '' @ str_opt (server ''name'') @ '': ''
                                  @ str_exn ex) ''error'')
                     (\<lambda>_. ret acc))"
  show ?case
  proof (cases "check_raises self e server")
    case True
    have "returns ?step (\<lambda>rs. rs = acc)"
      unfolding returns_def
    proof
      fix w
      obtain v w1 where cs: "check_server self e server w = (v, w1)" by (cases "check_server self e server w")
      from fst_check_server[of self e server w] cs check_outcome_raises[OF True]
      have "v = Inl (KeyError ''name'')" by simp
      with cs show "\<exists>x w'. ?step w = (Inr x, w') \<and> x = acc"
        by (simp add: try_except_def bnd_def log_line_run ret_def)
    qed
    then have "returns (bnd ?step (checks_loop self e rest))
       (\<lambda>rs. map result_key rs =
            map result_key acc @ map server_key (filter (\<lambda>s. \<not> check_raises self e s) rest))"
      by (rule returns_bnd) (simp add: Cons.IH)
    with True show ?thesis by simp
  next
    case False
    have "returns ?step (\<lambda>rs. \<exists>r. rs = acc @ [r] \<and> result_key r = server_key server)"
      unfolding returns_def
    proof
      fix w
      obtain v w1 where cs: "check_server self e server w = (v, w1)" by (cases "check_server self e server w")
      from check_outcome_returns[OF False, of "Suc (clock w)"] obtain r where
        "check_outcome self e server (Suc (clock w)) = Inr r" and k: "result_key r = server_key server"
        by blast
      with fst_check_server[of self e server w] cs have "v = Inr r" by simp
      with cs k show "\<exists>x w'. ?step w = (Inr x, w') \<and> (\<exists>r. x = acc @ [r] \<and> result_key r = server_key server)"
        by (simp add: try_except_def bnd_def ret_def)
    qed
    then have "returns (bnd ?step (checks_loop self e rest))
       (\<lambda>rs. map result_key rs =
            map result_key acc @ server_key server # map server_key (filter (\<lambda>s. \<not> check_raises self e s) rest))"
    proof (rule returns_bnd)
      fix x assume "\<exists>r. x = acc @ [r] \<and> result_key r = server_key server"
      then obtain r where x: "x = acc @ [r]" and k: "result_key r = server_key server" by blast
      from Cons.IH[of x] show "returns (checks_loop self e rest x)
         (\<lambda>rs. map result_key rs =
            map result_key acc @ server_key server # map server_key (filter (\<lambda>s. \<not> check_raises self e s) rest))"
        by (simp add: x k)
    qed
    with False show ?thesis by simp
  qed
qed

lemma returns_save_results:
  "current_writable e \<Longrightarrow> history_writable e \<Longrightarrow>
   returns (save_results self e results) (\<lambda>_. True)"
  unfolding returns_def using save_results_run by blast

lemma raises_save_results_current:
  "\<not> current_writable e \<Longrightarrow>
   raises (save_results self e results) (\<lambda>ex. ex = OSError (output_dir self @ ''/current.json''))"
  by (simp add: raises_def save_results_def bnd_def write_current_def raise_def)

lemma raises_save_results_history:
  "current_writable e \<Longrightarrow> \<not> history_writable e \<Longrightarrow>
   raises (save_results self e results) (\<lambda>ex. \<exists>msg. ex = OSError msg)"
  by (simp add: raises_def save_results_def bnd_def write_current_run write_history_def
        raise_def now_def Let_def)

lemma run_checks_returns:
  assumes "current_writable e" and "history_writable e"
  shows "returns (run_checks self e)
           (\<lambda>rs. map result_key rs =
                  map server_key (filter (\<lambda>s. \<not> check_raises self e s) (servers self)))"
  unfolding run_checks_def
  apply (rule returns_bnd[OF returns_log_line])
  apply (rule returns_bnd[OF returns_log_line])
  apply (rule returns_bnd[OF returns_log_line])
  apply (rule returns_bnd[OF checks_loop_returns])
  apply (rule returns_bnd[OF returns_save_results[OF assms]])
  apply (simp only: Let_def)
  apply (rule returns_bnd[OF returns_log_line])
  apply (rule returns_bnd[OF returns_log_line])
  apply (rule returns_bnd[OF returns_log_line])
  apply (rule returns_ret)
  apply simp
  done

lemma raises_weaken: "raises m P \<Longrightarrow> (\<And>ex. P ex \<Longrightarrow> Q ex) \<Longrightarrow> raises m Q"
  unfolding raises_def by blast

lemma run_checks_raises:
  assumes "\<And>results. raises (save_results self e results) Q"
  shows "raises (run_checks self e) Q"
  unfolding run_checks_def
  apply (rule raises_bnd[OF returns_log_line])
  apply (rule raises_bnd[OF returns_log_line])
  apply (rule raises_bnd[OF returns_log_line])
  apply (rule raises_bnd[OF checks_loop_returns])
  apply (rule raises_bnd_first)
  apply (rule assms)
  done

subsection \<open>Hosts whose check raises\<close>

text \<open>
  Whether the check of a server raises does not depend on the world: it is the
  condition \<open>check_raises\<close>.
\<close>

lemma isl_check_server:
  "isl (fst (check_server self e server w)) = check_raises self e server"
  by (simp add: fst_check_server check_outcome_def check_raises_def)

lemma demo_fleet:
  "length (servers demo) = 4"
  "map server_key (filter (\<lambda>s. \<not> check_raises demo demo_env s) (servers demo)) =
     [(''web1'', Some ''10.0.0.1''), (''db1'', Some ''10.0.0.2''), (''gone'', Some ''10.0.0.9'')]"
  "current_writable demo_env" "history_writable demo_env"
  by code_simp+

text \<open>
  C5, as stated, fails: the fleet has four servers; the check of \<open>anon\<close> raises, and
  the run returns three results, none of them for \<open>anon\<close>.
\<close>

theorem raising_host_gets_no_result:
  "length (servers demo) = 4
 \<and> map_sum id (map res_name) (fst (run_checks demo demo_env new_world)) =
     Inr [''web1'', ''db1'', ''gone'']"
proof -
  from run_checks_returns[OF demo_fleet(3,4), of demo] obtain rs w' where
    run: "run_checks demo demo_env new_world = (Inr rs, w')" and
    keys: "map result_key rs =
             map server_key (filter (\<lambda>s. \<not> check_raises demo demo_env s) (servers demo))"
    unfolding returns_def by blast
  have "map res_name rs = map fst (map result_key rs)"
    by (simp add: result_key_def comp_def)
  also have "\<dots> = [''web1'', ''db1'', ''gone'']"
    by (simp add: keys demo_fleet(2))
  finally show ?thesis
    by (simp add: run demo_fleet(1))
qed

text \<open>
  C5, amended. An exception raised while one host is checked is caught inside the loop
  of \<open>run_checks\<close>; that host gets no result, and the loop goes on with the remaining
  hosts: a run that can save its results returns exactly one result for each host whose
  check does not raise, in the order of the server list, with the name and the address
  of that host. Whether a check raises is the same from every world \<open>w0\<close>.
\<close>

theorem run_checks_skips_raising_hosts:
  assumes "current_writable e" and "history_writable e"
  shows "\<exists>rs w'. run_checks self e w = (Inr rs, w')
           \<and> (\<forall>w0. map result_key rs =
                 map server_key
                   (filter (\<lambda>s. \<not> isl (fst (check_server self e s w0))) (servers self)))"
  using run_checks_returns[OF assms, of self] unfolding returns_def isl_check_server
  by blast

theorem run_checks_skips_raising_hosts_witness:
  "\<exists>rs w'. run_checks demo demo_env new_world = (Inr rs, w')
     \<and> map result_key rs =
         [(''web1'', Some ''10.0.0.1''), (''db1'', Some ''10.0.0.2''), (''gone'', Some ''10.0.0.9'')]"
proof -
  from run_checks_skips_raising_hosts[OF demo_fleet(3,4), of demo new_world]
  obtain rs w' where run: "run_checks demo demo_env new_world = (Inr rs, w')"
    and keys: "map result_key rs =
                 map server_key
                   (filter (\<lambda>s. \<not> isl (fst (check_server demo demo_env s new_world)))
                      (servers demo))"
    by blast
  from keys have found: "map result_key rs =
      [(''web1'', Some ''10.0.0.1''), (''db1'', Some ''10.0.0.2''), (''gone'', Some ''10.0.0.9'')]"
    by (simp add: isl_check_server demo_fleet(2))
  show ?thesis
    by (rule exI[of _ rs], rule exI[of _ w']) (simp add: run found)
qed

subsection \<open>A run that cannot persist\<close>

lemma raises_save_results:
  assumes "\<not> (current_writable e \<and> history_writable e)"
  shows "raises (save_results self e results) (\<lambda>ex. \<exists>msg. ex = OSError msg)"
proof (cases "current_writable e")
  case True
  with assms show ?thesis by (simp add: raises_save_results_history)
next
  case False
  from raises_save_results_current[OF this] show ?thesis
    by (rule raises_weaken) simp
qed

lemma run_continuous_raises:
  assumes "raises (run_checks self e) Q"
  shows "\<exists>ex w'. Q ex \<and> (\<forall>es. continuous_loop self interval (e # es) w = (Raised ex, w'))"
proof -
  from assms obtain ex w' where run: "run_checks self e w = (Inl ex, w')" and "Q ex"
    unfolding raises_def by blast
  then have "\<forall>es. continuous_loop self interval (e # es) w = (Raised ex, w')"
    by simp
  with \<open>Q ex\<close> show ?thesis by blast
qed

text \<open>
  Runs that can save their results and whose sleep ends normally are passed: the loop
  goes on with the runs that follow, from a world that does not depend on them.
\<close>

lemma continuous_loop_passes:
  assumes "list_all (\<lambda>e'. current_writable e' \<and> history_writable e'
                          \<and> sleep e' interval = Woke) es1"
  shows "\<exists>w1. \<forall>rest. continuous_loop self interval (es1 @ rest) w
                       = continuous_loop self interval rest w1"
  using assms
proof (induction es1 arbitrary: w)
  case Nil
  show ?case by (rule exI[of _ w]) simp
next
  case (Cons e' es1)
  then have ok: "current_writable e'" "history_writable e'" "sleep e' interval = Woke"
    and rest: "list_all (\<lambda>e'. current_writable e' \<and> history_writable e'
                               \<and> sleep e' interval = Woke) es1"
    by simp_all
  from run_checks_returns[OF ok(1,2), of self] obtain rs w2 where
    run: "run_checks self e' w = (Inr rs, w2)"
    unfolding returns_def by blast
  from Cons.IH[OF rest, of w2] obtain w1 where
    "\<forall>rest. continuous_loop self interval (es1 @ rest) w2
            = continuous_loop self interval rest w1"
    by blast
  with run ok(3) show ?case by (intro exI[of _ w1]) simp
qed

lemma run_continuous_reaches_failure:
  assumes "raises (run_checks self e) Q"
    and "list_all (\<lambda>e'. current_writable e' \<and> history_writable e'
                         \<and> sleep e' interval = Woke) es1"
  shows "\<exists>ex w'. Q ex
           \<and> (\<forall>es2. run_continuous self interval (es1 @ e # es2) w = (Raised ex, w'))"
proof -
  let ?w0 = "snd (bnd (log_line (''Starting continuous monitoring (interval: ''
                            @ str_int interval @ ''s)'') ''info'')
               (\<lambda>_. log_line ''Press Ctrl+C to stop'' ''info'') w)"
  from continuous_loop_passes[OF assms(2), of self ?w0] obtain w1 where
    pass: "\<forall>rest. continuous_loop self interval (es1 @ rest) ?w0
                 = continuous_loop self interval rest w1"
    by blast
  from run_continuous_raises[OF assms(1), of interval w1] obtain ex w' where
    "Q ex" and "\<forall>es. continuous_loop self interval (e # es) w1 = (Raised ex, w')"
    by blast
  with pass have "\<forall>es2. run_continuous self interval (es1 @ e # es2) w = (Raised ex, w')"
    by (simp add: run_continuous_def)
  with \<open>Q ex\<close> show ?thesis by blast
qed

text \<open>
  C4, as stated, fails: when the first of two scheduled runs cannot write
  \<open>current.json\<close>, \<open>run_continuous\<close> ends with the \<open>OSError\<close>.
\<close>

theorem persist_failure_ends_the_loop:
  "fst (run_continuous demo 60 [demo_env\<lparr>current_writable := False\<rparr>, demo_env] new_world)
     = Raised (OSError ''/tmp/health-monitor/current.json'')"
proof -
  let ?e = "demo_env\<lparr>current_writable := False\<rparr>"
  have "\<not> current_writable ?e" by simp
  then have "raises (run_checks demo ?e) (\<lambda>ex. ex = OSError (output_dir demo @ ''/current.json''))"
    by (intro run_checks_raises raises_save_results_current)
  from run_continuous_reaches_failure[OF this, of 60 "[]" new_world] show ?thesis
    by (auto simp: demo_def)
qed

text \<open>
  C4, amended. When a run cannot write one of its two files, the \<open>OSError\<close> raised by
  \<open>save_results\<close> leaves \<open>run_checks\<close> and \<open>run_continuous\<close>: the continuous run ends
  with that exception, whatever runs were to follow. This holds for the first run and
  for every later run that the loop reaches, that is, when each run before it has saved
  its results and the sleep after it has ended normally.
\<close>

theorem persist_failure_propagates:
  assumes "\<not> (current_writable e \<and> history_writable e)"
    and "list_all (\<lambda>e'. current_writable e' \<and> history_writable e'
                         \<and> sleep e' interval = Woke) es1"
  shows "\<exists>msg w'. \<forall>es2.
           run_continuous self interval (es1 @ e # es2) w = (Raised (OSError msg), w')"
proof -
  have "raises (run_checks self e) (\<lambda>ex. \<exists>msg. ex = OSError msg)"
    by (intro run_checks_raises raises_save_results assms(1))
  from run_continuous_reaches_failure[OF this assms(2), of w] show ?thesis by blast
qed

lemma demo_env_passes:
  "list_all (\<lambda>e'. current_writable e' \<and> history_writable e' \<and> sleep e' 60 = Woke) [demo_env]"
  "list_all (\<lambda>e'. current_writable e' \<and> history_writable e' \<and> sleep e' 60 = Woke) []"
  by code_simp+

theorem persist_failure_propagates_witness:
  "(\<exists>msg w'. run_continuous demo 60
               [demo_env, demo_env\<lparr>history_writable := False\<rparr>, demo_env] new_world
             = (Raised (OSError msg), w'))
 \<and> (\<exists>msg w'. run_continuous demo 60
               [demo_env\<lparr>history_writable := False\<rparr>, demo_env] new_world
             = (Raised (OSError msg), w'))"
proof -
  have bad: "\<not> (current_writable (demo_env\<lparr>history_writable := False\<rparr>)
          \<and> history_writable (demo_env\<lparr>history_writable := False\<rparr>))"
    by simp
  from persist_failure_propagates[OF bad demo_env_passes(1), of demo new_world]
  have later: "\<exists>msg w'. run_continuous demo 60
               [demo_env, demo_env\<lparr>history_writable := False\<rparr>, demo_env] new_world
             = (Raised (OSError msg), w')"
    by (metis append_Cons append_Nil)
  from persist_failure_propagates[OF bad demo_env_passes(2), of demo new_world]
  have first: "\<exists>msg w'. run_continuous demo 60
               [demo_env\<lparr>history_writable := False\<rparr>, demo_env] new_world
             = (Raised (OSError msg), w')"
    by (metis append_Nil)
  from later first show ?thesis by (rule conjI)
qed

text \<open>
  A negative interval ends the loop as well: after the first run, \<open>time.sleep\<close> raises
  \<open>ValueError\<close>, which \<open>run_continuous\<close> does not catch.
\<close>

lemma negative_interval_ends_the_loop:
  assumes "current_writable e" and "history_writable e"
    and "sleep_error e interval = None" and "interval < 0"
  shows "\<exists>w'. \<forall>es. run_continuous self interval (e # es) w
                    = (Raised (ValueError ''sleep length must be non-negative''), w')"
proof -
  let ?w0 = "snd (bnd (log_line (''Starting continuous monitoring (interval: ''
                            @ str_int interval @ ''s)'') ''info'')
               (\<lambda>_. log_line ''Press Ctrl+C to stop'' ''info'') w)"
  from run_checks_returns[OF assms(1,2), of self] obtain rs w' where
    "run_checks self e ?w0 = (Inr rs, w')"
    unfolding returns_def by blast
  with assms(3,4) show ?thesis
    by (simp add: run_continuous_def sleep_def)
qed

subsection \<open>Collectors on bad output\<close>

lemma not_truthy_values:
  assumes "\<not> truthy out"
  shows "uptime_value out = Some ''Unknown''" and "cpu_value e out = None"
    and "memory_value out = None" and "disk_value out = None"
    and "load_value e out = None" and "docker_value out = None"
  using assms
  by (auto simp: truthy_def uptime_value_def cpu_value_def memory_value_def disk_value_def
        load_value_def docker_value_def split: option.splits)

lemma memory_malformed_absent: "memory_malformed s \<Longrightarrow> memory_value (Some s) = None"
  by (auto simp: memory_malformed_def memory_value_def parse_memory_def item_def Let_def
        true_div_def split: option.splits Option.bind_splits)

lemma disk_loop_malformed:
  "list_all (\<lambda>l. length (split_ws l) < 6
                  \<or> py_int (rstrip_char CHR ''%'' (split_ws l ! 4)) = None) ls \<Longrightarrow>
   disk_loop ls acc = acc"
  by (induction ls arbitrary: acc) (auto simp: Let_def disk_row_def)

lemma disk_malformed_absent: "disk_malformed s \<Longrightarrow> disk_value (Some s) = None"
  by (simp add: disk_malformed_def disk_value_def disk_loop_malformed)

lemma load_malformed_absent: "load_malformed e s \<Longrightarrow> load_value e (Some s) = None"
  by (auto simp: load_malformed_def load_value_def parse_load_def item_def Let_def
        split: option.splits Option.bind_splits)

lemma resolved_unresolved:
  "list_all (unresolved e server) names \<Longrightarrow> resolved e server names acc = acc"
  by (induction names arbitrary: acc) (auto simp: unresolved_def Let_def)

lemma services_unresolved_absent:
  "list_all (unresolved e server) names \<Longrightarrow> services_value e server names = None"
  by (simp add: services_value_def resolved_unresolved)

lemma docker_not_installed: "docker_value (Some ''NOT_INSTALLED'') = None"
  by (simp add: docker_value_def)

lemma collect_metrics_returns:
  assumes "\<not> key_error self server"
  shows "\<exists>w'. collect_metrics self e server w = (Inr (metrics_of e server), w')"
proof -
  from assms have "fst (collect_metrics self e server w) = Inr (metrics_of e server)"
    by (simp add: fst_collect_metrics collect_raises_def)
  then show ?thesis by (metis prod.collapse)
qed

text \<open>
  C6, as stated, fails for the uptime collector: the uptime probe of \<open>web1\<close> succeeds
  with empty output, and \<open>get_uptime\<close> returns the placeholder \<open>Unknown\<close>, not \<open>None\<close>.
\<close>

theorem empty_uptime_is_a_placeholder:
  "ssh_output demo_env web1 ''uptime -p'' = Some []
 \<and> fst (get_uptime demo demo_env web1 new_world) = Inr (Some ''Unknown'')"
  by code_simp

text \<open>
  C6, amended. For a server that has a name, or a checker that is not verbose, the
  seven collectors return without an exception, and each metric is computed from the
  output of its own commands only (\<open>metrics_of\<close>), so that bad output for one metric
  changes no other. Empty or missing output gives \<open>None\<close> for CPU, memory, disk, load
  average and containers, and the placeholder \<open>Unknown\<close> for the uptime. Output that
  \<open>float\<close> rejects gives no CPU value; malformed memory, disk and load output gives
  \<open>None\<close>; so does the container sentinel \<open>NOT_INSTALLED\<close>; and the services are
  \<open>None\<close> when no probe resolves.
\<close>

theorem bad_output_is_absent:
  assumes "\<not> key_error self server"
  shows "(\<exists>w'. collect_metrics self e server w = (Inr (metrics_of e server), w'))
     \<and> (\<not> truthy out \<longrightarrow>
          uptime_value out = Some ''Unknown'' \<and> cpu_value e out = None
          \<and> memory_value out = None \<and> disk_value out = None
          \<and> load_value e out = None \<and> docker_value out = None)
     \<and> (float_of_str e s = None \<longrightarrow> cpu_value e (Some s) = None)
     \<and> (memory_malformed s \<longrightarrow> memory_value (Some s) = None)
     \<and> (disk_malformed s \<longrightarrow> disk_value (Some s) = None)
     \<and> (load_malformed e s \<longrightarrow> load_value e (Some s) = None)
     \<and> docker_value (Some ''NOT_INSTALLED'') = None
     \<and> (list_all (unresolved e server) names \<longrightarrow> services_value e server names = None)"
proof -
  have "float_of_str e s = None \<longrightarrow> cpu_value e (Some s) = None"
    by (simp add: cpu_value_def)
  with collect_metrics_returns[OF assms] not_truthy_values[of out]
    memory_malformed_absent disk_malformed_absent load_malformed_absent
    docker_not_installed services_unresolved_absent
  show ?thesis by blast
qed

lemma demo_bad_output:
  "\<not> key_error demo web1"
  "metrics_of demo_env web1 =
     \<lparr>m_uptime = Some ''Unknown'', m_cpu = None,
      m_memory = Some \<lparr>mem_total = 1000, mem_used = 850, mem_free = 150,
                        mem_percent = Fin 85\<rparr>,
      m_disk = None, m_load = None, m_docker = None, m_services = None\<rparr>"
  "\<not> truthy (Some [])"
  "float_of_str demo_env ''n/a'' = None"
  "memory_malformed ''Mem: 1000 lots 150''"
  "disk_malformed ''/dev/sda1 100G 97G 3G full /''"
  "load_malformed demo_env ''0.52 0.48''"
  "list_all (unresolved demo_env web1) default_services"
  by code_simp+

theorem bad_output_is_absent_witness:
  "(\<exists>w'. collect_metrics demo demo_env web1 new_world =
      (Inr \<lparr>m_uptime = Some ''Unknown'', m_cpu = None,
            m_memory = Some \<lparr>mem_total = 1000, mem_used = 850, mem_free = 150,
                              mem_percent = Fin 85\<rparr>,
            m_disk = None, m_load = None, m_docker = None, m_services = None\<rparr>, w'))
 \<and> uptime_value (Some []) = Some ''Unknown''
 \<and> cpu_value demo_env (Some []) = None
 \<and> cpu_value demo_env (Some ''n/a'') = None
 \<and> memory_value (Some ''Mem: 1000 lots 150'') = None
 \<and> disk_value (Some ''/dev/sda1 100G 97G 3G full /'') = None
 \<and> load_value demo_env (Some ''0.52 0.48'') = None
 \<and> services_value demo_env web1 default_services = None"
  using bad_output_is_absent[OF demo_bad_output(1), of demo_env new_world "Some []" "''n/a''"
          default_services]
    bad_output_is_absent[OF demo_bad_output(1), of demo_env new_world "Some []"
          "''Mem: 1000 lots 150''" default_services]
    bad_output_is_absent[OF demo_bad_output(1), of demo_env new_world "Some []"
          "''/dev/sda1 100G 97G 3G full /''" default_services]
    bad_output_is_absent[OF demo_bad_output(1), of demo_env new_world "Some []"
          "''0.52 0.48''" default_services]
    demo_bad_output(2-)
  by simp

subsection \<open>Disks and services\<close>

lemma disk_loop_keeps: "acc \<noteq> [] \<Longrightarrow> disk_loop ls acc \<noteq> []"
  by (induction ls arbitrary: acc) (auto simp: Let_def split: option.splits)

lemma disk_loop_finds_row:
  "\<not> list_all (\<lambda>l. length (split_ws l) < 6
                    \<or> py_int (rstrip_char CHR ''%'' (split_ws l ! 4)) = None) ls \<Longrightarrow>
   disk_loop ls acc \<noteq> []"
proof (induction ls arbitrary: acc)
  case Nil
  then show ?case by simp
next
  case (Cons l ls)
  show ?case
  proof (cases "length (split_ws l) < 6
                \<or> py_int (rstrip_char CHR ''%'' (split_ws l ! 4)) = None")
    case True
    with Cons.prems have "\<not> list_all (\<lambda>l. length (split_ws l) < 6
                    \<or> py_int (rstrip_char CHR ''%'' (split_ws l ! 4)) = None) ls"
      by simp
    from Cons.IH[OF this] True show ?thesis
      by (auto simp: Let_def disk_row_def split: option.splits)
  next
    case False
    then obtain d where "disk_row (split_ws l) = Some d"
      by (auto simp: disk_row_def split: option.splits)
    with False show ?thesis
      by (simp add: Let_def disk_loop_keeps)
  qed
qed

lemma disk_value_None_iff:
  "(disk_value out = None) = (case out of None \<Rightarrow> True | Some s \<Rightarrow> disk_malformed s)"
proof (cases out)
  case None
  then show ?thesis by (simp add: disk_value_def)
next
  case (Some s)
  show ?thesis
  proof (cases "disk_malformed s")
    case True
    with Some show ?thesis by (simp add: disk_malformed_absent)
  next
    case False
    then have "disk_loop (split_on (CHR 0x0A) s) [] \<noteq> []"
      unfolding disk_malformed_def by (rule disk_loop_finds_row)
    moreover from False have "s \<noteq> []"
      by (auto simp: disk_malformed_def split_on_def split_ws_def)
    ultimately show ?thesis
      using Some False by (simp add: disk_value_def Let_def)
  qed
qed

lemma resolved_keeps: "acc \<noteq> [] \<Longrightarrow> resolved e server names acc \<noteq> []"
  by (induction names arbitrary: acc) (auto simp: Let_def)

lemma resolved_finds_service:
  "\<not> list_all (unresolved e server) names \<Longrightarrow> resolved e server names acc \<noteq> []"
proof (induction names arbitrary: acc)
  case Nil
  then show ?case by simp
next
  case (Cons n names)
  show ?case
  proof (cases "unresolved e server n")
    case True
    with Cons.prems have "\<not> list_all (unresolved e server) names" by simp
    from Cons.IH[OF this] True show ?thesis
      by (auto simp: unresolved_def Let_def)
  next
    case False
    then show ?thesis
      by (auto simp: unresolved_def Let_def resolved_keeps)
  qed
qed

lemma services_value_None_iff:
  "(services_value e server names = None) = list_all (unresolved e server) names"
  using resolved_finds_service[of e server names "[]"] resolved_unresolved[of e server names "[]"]
  by (auto simp: services_value_def)

lemma services_value_nonempty: "services_value e server names \<noteq> Some []"
  by (simp add: services_value_def)

lemma disk_value_not_empty: "disk_value out \<noteq> Some []"
  by (auto simp: disk_value_def Let_def split: option.splits)

lemma get_disk_usage_Inr:
  assumes "get_disk_usage self e server w = (Inr v, w')"
  shows "v = disk_value (ssh_output e server disk_command)"
  using fst_get_disk_usage[of self e server w] assms
  by (auto simp: ssh_outcome_def split: if_splits)

lemma get_services_status_Inr:
  assumes "get_services_status self e server arg w = (Inr u, w')"
  shows "u = services_value e server (service_names arg)"
  using fst_get_services_status[of self e server arg w] assms
  by (auto split: if_splits)

text \<open>
  C10. Neither \<open>get_disk_usage\<close> nor \<open>get_services_status\<close> returns an empty list: a
  result that is not \<open>None\<close> has at least one entry. The result of \<open>get_disk_usage\<close> is
  \<open>None\<close> exactly when no disk row parses, and the result of \<open>get_services_status\<close> is
  \<open>None\<close> exactly when none of the queried services resolves.
\<close>

theorem disk_and_services_never_empty:
  "(get_disk_usage self e server w = (Inr v, w') \<longrightarrow>
      v \<noteq> Some [] \<and> (v = None) = no_disk_row e server)
 \<and> (get_services_status self e server arg w = (Inr u, w'') \<longrightarrow>
      u \<noteq> Some [] \<and> (u = None) = list_all (unresolved e server) (service_names arg))"
proof (intro conjI impI)
  assume run: "get_disk_usage self e server w = (Inr v, w')"
  note v = get_disk_usage_Inr[OF run]
  show "v \<noteq> Some []" by (simp add: v disk_value_not_empty)
  show "(v = None) = no_disk_row e server"
    by (simp add: v disk_value_None_iff no_disk_row_def)
next
  assume run: "get_services_status self e server arg w = (Inr u, w'')"
  note u = get_services_status_Inr[OF run]
  show "u \<noteq> Some []" by (simp add: u services_value_nonempty)
  show "(u = None) = list_all (unresolved e server) (service_names arg)"
    by (simp add: u services_value_None_iff)
qed

lemma demo_disk:
  "fst (get_disk_usage demo demo_env db1 new_world) =
     Inr (Some [\<lparr>disk_device = ''/dev/sda1'', disk_size = ''100G'', disk_used = ''97G'',
                  disk_available = ''3G'', disk_percent = 97, disk_mount = ''/''\<rparr>,
                \<lparr>disk_device = ''/dev/sdb1'', disk_size = ''100G'', disk_used = ''90G'',
                  disk_available = ''10G'', disk_percent = 90, disk_mount = ''/data''\<rparr>])"
  "fst (get_disk_usage demo demo_env web2 new_world) = Inr None"
  unfolding fst_get_disk_usage by code_simp+

lemma demo_services:
  "fst (get_services_status demo demo_env db1 None new_world) =
     Inr (Some [\<lparr>svc_name = ''ssh'', svc_status = ''active'', svc_running = True\<rparr>,
                \<lparr>svc_name = ''nginx'', svc_status = ''inactive'', svc_running = False\<rparr>])"
  "fst (get_services_status demo demo_env web2 (Some [''ssh'']) new_world) = Inr None"
  unfolding fst_get_services_status by code_simp+

lemma demo_rows:
  "ssh_output demo_env web2 disk_command = Some ''/dev/sda1 100G 97G 3G - /''"
  "no_disk_row demo_env web2"
  "\<not> no_disk_row demo_env db1"
  "ssh_output demo_env web2 (service_command ''ssh'') = Some ''not-found''"
  "list_all (unresolved demo_env web2) (service_names (Some [''ssh'']))"
  "\<not> list_all (unresolved demo_env db1) (service_names None)"
  by code_simp+

theorem disk_and_services_never_empty_witness:
  "(\<exists>ds w'. get_disk_usage demo demo_env db1 new_world = (Inr (Some ds), w') \<and> ds \<noteq> [])
 \<and> (\<exists>rs w'. get_services_status demo demo_env db1 None new_world = (Inr (Some rs), w')
             \<and> rs \<noteq> [])
 \<and> ssh_output demo_env web2 disk_command = Some ''/dev/sda1 100G 97G 3G - /''
 \<and> (\<exists>w'. get_disk_usage demo demo_env web2 new_world = (Inr None, w'))
 \<and> ssh_output demo_env web2 (service_command ''ssh'') = Some ''not-found''
 \<and> (\<exists>w'. get_services_status demo demo_env web2 (Some [''ssh'']) new_world = (Inr None, w'))"
proof -
  obtain v1 w1 where d1: "get_disk_usage demo demo_env db1 new_world = (Inr v1, w1)"
    using demo_disk(1) by (metis prod.collapse)
  obtain v2 w2 where d2: "get_disk_usage demo demo_env web2 new_world = (Inr v2, w2)"
    using demo_disk(2) by (metis prod.collapse)
  obtain u1 x1 where s1: "get_services_status demo demo_env db1 None new_world = (Inr u1, x1)"
    using demo_services(1) by (metis prod.collapse)
  obtain u2 x2 where
    s2: "get_services_status demo demo_env web2 (Some [''ssh'']) new_world = (Inr u2, x2)"
    using demo_services(2) by (metis prod.collapse)
  from disk_and_services_never_empty[of demo demo_env db1 new_world v1 w1 None u1 x1] d1 s1
  have a: "v1 \<noteq> Some []" "v1 \<noteq> None" "u1 \<noteq> Some []" "u1 \<noteq> None"
    by (simp_all add: demo_rows)
  from disk_and_services_never_empty[of demo demo_env web2 new_world v2 w2 "Some [''ssh'']" u2 x2]
    d2 s2
  have b: "v2 = None" "u2 = None"
    by (simp_all add: demo_rows)
  from a obtain ds rs where "v1 = Some ds" "ds \<noteq> []" "u1 = Some rs" "rs \<noteq> []"
    by (cases v1; cases u1) auto
  with d1 s1 d2 s2 b show ?thesis
    by (simp add: demo_rows)
qed

end
